theory Spec2Isabelle
  imports Main "HOL-Library.Word"
begin

section \<open>Strings\<close>

text \<open>
  A JavaScript string is a sequence of 16-bit code units. String equality (\<open>===\<close>) is
  equality of these sequences. ASCII literals are written through \<open>js\<close>.
\<close>

type_synonym jstring = "16 word list"

definition js :: "string \<Rightarrow> jstring" where
  "js s = map (\<lambda>c. of_nat (of_char c)) s"

definition LF :: "16 word" where
  "LF = 0x0A"

definition BT :: "16 word" where
  "BT = 0x60"

text \<open>
  The class \<open>\s\<close> of a regular expression and the characters removed by
  \<open>String.prototype.trim\<close> are the same set: WhiteSpace and LineTerminator.
\<close>

definition is_space :: "16 word \<Rightarrow> bool" where
  "is_space c =
     (c = 0x09 \<or> c = 0x0A \<or> c = 0x0B \<or> c = 0x0C \<or> c = 0x0D \<or> c = 0x20 \<or> c = 0xA0
      \<or> c = 0x1680 \<or> (0x2000 \<le> c \<and> c \<le> 0x200A) \<or> c = 0x2028 \<or> c = 0x2029
      \<or> c = 0x202F \<or> c = 0x205F \<or> c = 0x3000 \<or> c = 0xFEFF)"

definition trim :: "jstring \<Rightarrow> jstring" where
  "trim s = rev (dropWhile is_space (rev (dropWhile is_space s)))"

text \<open>Truthiness of an optional string: \<open>undefined\<close> and \<open>""\<close> are falsy.\<close>

fun truthy :: "jstring option \<Rightarrow> bool" where
  "truthy None = False"
| "truthy (Some s) = (s \<noteq> [])"

section \<open>Data model (types.ts)\<close>

record ValeAction =
  Name :: jstring
  Params :: "jstring list"

text \<open>
  \<open>Severity\<close> is declared as the union \<open>"error" | "warning" | "suggestion"\<close>; the value is
  read from parsed JSON through an unchecked cast, so at run time it is any string. The
  other properties have their declared types; line and column numbers are integers.
\<close>

record ValeIssue =
  Line :: int
  Span :: "int \<times> int"
  Check :: jstring
  Message :: jstring
  Severity :: jstring
  Link :: "jstring option"
  Match :: "jstring option"
  Action :: "ValeAction option"

text \<open>
  \<open>ValeRawOutput\<close>: an object keyed by file path. The list holds its own enumerable
  properties in the order \<open>for ... in\<close> enumerates them; keys are distinct.
\<close>

type_synonym ValeRawOutput = "(jstring \<times> ValeIssue list) list"

record NormalizedValeIssue =
  line :: int
  span :: "int \<times> int"
  check :: jstring
  message :: jstring
  severity :: jstring
  link :: "jstring option"
  match :: "jstring option"

record ValeSummary =
  total :: nat
  errors :: nat
  warnings :: nat
  suggestions :: nat

record CheckFileResult =
  formatted :: jstring
  file_path :: jstring
  issues :: "NormalizedValeIssue list"
  summary :: ValeSummary

text \<open>
  The runner throws plain \<open>Error\<close> objects; the constructor names the throw site and
  carries the message of the thrown error.
\<close>

datatype error =
  FileNotFound jstring
| ToolExecutionFailed jstring
| MalformedToolOutput jstring

section \<open>Output normalizer (vale-runner.ts)\<close>

subsection \<open>stripCodeFence\<close>

text \<open>
  \<open>output.replace(/^```json\s*\n?/, "")\<close>: the match is anchored at the start; \<open>\s*\<close> is
  greedy, then one line feed is taken if it is the next character.
\<close>

definition strip_open :: "jstring \<Rightarrow> jstring" where
  "strip_open s =
     (if take 7 s = js ''```json'' then
        (let r = dropWhile is_space (drop 7 s) in
         case r of [] \<Rightarrow> r | c # r' \<Rightarrow> if c = LF then r' else r)
      else s)"

text \<open>
  \<open>.replace(/\n?```\s*$/, "")\<close>: without the \<open>g\<close> flag the leftmost match is replaced, and
  without the \<open>m\<close> flag \<open>$\<close> is the end of the input, so the match runs to the end.
  \<open>closes_here r\<close>: \<open>r\<close> is three backticks followed by white space only.
\<close>

definition closes_here :: "jstring \<Rightarrow> bool" where
  "closes_here r = (take 3 r = js ''```'' \<and> list_all is_space (drop 3 r))"

definition close_match :: "jstring \<Rightarrow> bool" where
  "close_match r =
     ((case r of [] \<Rightarrow> False | c # r' \<Rightarrow> c = LF \<and> closes_here r') \<or> closes_here r)"

fun strip_close :: "jstring \<Rightarrow> jstring" where
  "strip_close [] = []"
| "strip_close (c # cs) = (if close_match (c # cs) then [] else c # strip_close cs)"

definition stripCodeFence :: "jstring \<Rightarrow> jstring" where
  "stripCodeFence output = trim (strip_close (strip_open output))"

text \<open>A text wrapped in a code fence: a leading \<open>```json\<close> line and a trailing \<open>```\<close> line.\<close>

definition wrapFence :: "jstring \<Rightarrow> jstring" where
  "wrapFence t = js ''```json\<newline>'' @ t @ js ''\<newline>```''"

text \<open>A text that carries a fence of its own, at its start or (white space aside) at its end.\<close>

definition has_open_fence :: "jstring \<Rightarrow> bool" where
  "has_open_fence t = (take 7 t = js ''```json'')"

definition has_close_fence :: "jstring \<Rightarrow> bool" where
  "has_close_fence t = (take 3 (dropWhile is_space (rev t)) = js ''```'')"

subsection \<open>parseValeOutput\<close>

text \<open>
  \<open>JSON.parse\<close> is a function of the platform: it either throws a \<open>SyntaxError\<close> (\<open>Inl\<close> its
  message) or returns the parsed object, which the source casts to \<open>ValeRawOutput\<close>.
\<close>

type_synonym json_parser = "jstring \<Rightarrow> jstring + ValeRawOutput"

definition parseValeOutput :: "json_parser \<Rightarrow> jstring \<Rightarrow> error + ValeRawOutput" where
  "parseValeOutput JSON_parse output =
     (let cleanedOutput = stripCodeFence output in
      if cleanedOutput = [] then Inr []
      else case JSON_parse cleanedOutput of
             Inl m \<Rightarrow> Inl (MalformedToolOutput (js ''Failed to parse Vale JSON output: '' @ m))
           | Inr raw \<Rightarrow> Inr raw)"

subsection \<open>normalizeIssues\<close>

definition normalize_issue :: "ValeIssue \<Rightarrow> NormalizedValeIssue" where
  "normalize_issue issue =
     \<lparr>line = Line issue, span = Span issue, check = Check issue, message = Message issue,
      severity = Severity issue, link = Link issue, match = Match issue\<rparr>"

text \<open>The inner loop pushes one normalized issue per raw issue of a file.\<close>

fun push_file_issues :: "NormalizedValeIssue list \<Rightarrow> ValeIssue list \<Rightarrow> NormalizedValeIssue list" where
  "push_file_issues normalized [] = normalized"
| "push_file_issues normalized (issue # fileIssues) =
     push_file_issues (normalized @ [normalize_issue issue]) fileIssues"

text \<open>The outer loop visits the file keys in enumeration order.\<close>

fun normalize_files :: "NormalizedValeIssue list \<Rightarrow> ValeRawOutput \<Rightarrow> NormalizedValeIssue list" where
  "normalize_files normalized [] = normalized"
| "normalize_files normalized ((filePath, fileIssues) # rest) =
     normalize_files (push_file_issues normalized fileIssues) rest"

definition normalizeIssues :: "ValeRawOutput \<Rightarrow> NormalizedValeIssue list" where
  "normalizeIssues raw = normalize_files [] raw"

subsection \<open>generateSummary\<close>

text \<open>One step of the counting loop: the \<open>switch\<close> has no default case.\<close>

definition count_issue :: "ValeSummary \<Rightarrow> NormalizedValeIssue \<Rightarrow> ValeSummary" where
  "count_issue s issue =
     (if severity issue = js ''error'' then s\<lparr>errors := errors s + 1\<rparr>
      else if severity issue = js ''warning'' then s\<lparr>warnings := warnings s + 1\<rparr>
      else if severity issue = js ''suggestion'' then s\<lparr>suggestions := suggestions s + 1\<rparr>
      else s)"

definition generateSummary :: "NormalizedValeIssue list \<Rightarrow> ValeSummary" where
  "generateSummary iss =
     foldl count_issue \<lparr>total = length iss, errors = 0, warnings = 0, suggestions = 0\<rparr> iss"

text \<open>A severity that the summary and the report know.\<close>

definition recognized :: "NormalizedValeIssue \<Rightarrow> bool" where
  "recognized issue =
     (severity issue = js ''error'' \<or> severity issue = js ''warning''
      \<or> severity issue = js ''suggestion'')"

section \<open>Report formatter (vale-runner.ts)\<close>

text \<open>Decimal rendering of a number inside a template literal.\<close>

fun show_nat :: "nat \<Rightarrow> jstring" where
  "show_nat n =
     (if n < 10 then [of_nat (48 + n)] else show_nat (n div 10) @ [of_nat (48 + n mod 10)])"

declare show_nat.simps [simp del]

definition show_int :: "int \<Rightarrow> jstring" where
  "show_int i = (if i < 0 then js ''-'' @ show_nat (nat (- i)) else show_nat (nat i))"

text \<open>\<open>n !== 1 ? 's' : ''\<close>\<close>

definition plural :: "nat \<Rightarrow> jstring" where
  "plural n = (if n \<noteq> 1 then js ''s'' else [])"

text \<open>\<open>parts.join(', ')\<close>\<close>

fun join_comma :: "jstring list \<Rightarrow> jstring" where
  "join_comma [] = []"
| "join_comma [p] = p"
| "join_comma (p # q # ps) = p @ js '', '' @ join_comma (q # ps)"

text \<open>
  \<open>toUpperCase\<close> is applied to the keys of \<open>grouped\<close> only, which are lower-case ASCII words;
  on ASCII text it maps \<open>a\<close>..\<open>z\<close> to \<open>A\<close>..\<open>Z\<close> and keeps every other code unit.
\<close>

definition upper_unit :: "16 word \<Rightarrow> 16 word" where
  "upper_unit c = (if 0x61 \<le> c \<and> c \<le> 0x7A then c - 0x20 else c)"

definition toUpperCase :: "jstring \<Rightarrow> jstring" where
  "toUpperCase s = map upper_unit s"

definition severityEmoji :: "(jstring \<times> jstring) list" where
  "severityEmoji =
     [(js ''error'', [0xD83D, 0xDD34]),
      (js ''warning'', [0xD83D, 0xDFE1]),
      (js ''suggestion'', [0xD83D, 0xDCA1])]"

text \<open>A value of a template literal that may be \<open>undefined\<close>.\<close>

fun tmpl :: "jstring option \<Rightarrow> jstring" where
  "tmpl None = js ''undefined''"
| "tmpl (Some s) = s"

definition DQ :: "16 word" where
  "DQ = 0x22"

text \<open>The prefix of the detail lines: three spaces, the arrow U+21B3, one space.\<close>

definition arrow :: jstring where
  "arrow = js ''   '' @ [0x21B3] @ js '' ''"

definition no_issues_message :: jstring where
  "no_issues_message =
     [0x2705] @ js '' **No style issues found!**\<newline>\<newline>''
     @ js ''The text looks good according to Vale style rules.''"

text \<open>The body of the inner loop: the block appended for one issue of group \<open>sev\<close>.\<close>

definition render_issue :: "jstring \<Rightarrow> jstring \<Rightarrow> NormalizedValeIssue \<Rightarrow> jstring" where
  "render_issue sev output issue =
     (let emoji = tmpl (map_of severityEmoji sev);
          o1 = output @ emoji @ js '' **Line '' @ show_int (line issue) @ js ''** (''
                 @ toUpperCase sev @ js ''): '' @ message issue @ [LF];
          o2 = (if truthy (match issue)
                then o1 @ arrow @ js ''Found: '' @ [DQ] @ the (match issue) @ [DQ, LF]
                else o1);
          o3 = o2 @ arrow @ js ''Rule: `'' @ check issue @ js ''`'' @ [LF];
          o4 = (if truthy (link issue)
                then o3 @ arrow @ js ''[More info]('' @ the (link issue) @ js '')'' @ [LF]
                else o3)
      in o4 @ [LF])"

text \<open>The body of the outer loop over \<open>Object.entries(grouped)\<close>; an empty group is skipped.\<close>

definition render_group ::
  "jstring \<Rightarrow> jstring \<times> NormalizedValeIssue list \<Rightarrow> jstring" where
  "render_group output entry =
     (case entry of (sev, severityIssues) \<Rightarrow>
        if length severityIssues = 0 then output
        else foldl (render_issue sev) output severityIssues)"

text \<open>The object \<open>grouped\<close>, as the list of its entries in insertion order.\<close>

definition grouped :: "NormalizedValeIssue list \<Rightarrow> (jstring \<times> NormalizedValeIssue list) list" where
  "grouped iss =
     [(js ''error'', filter (\<lambda>i. severity i = js ''error'') iss),
      (js ''warning'', filter (\<lambda>i. severity i = js ''warning'') iss),
      (js ''suggestion'', filter (\<lambda>i. severity i = js ''suggestion'') iss)]"

text \<open>The array \<open>parts\<close> after the three conditional pushes.\<close>

definition summary_parts :: "ValeSummary \<Rightarrow> jstring list" where
  "summary_parts s =
     (let parts0 = [];
          parts1 = (if errors s > 0
                    then parts0 @ [show_nat (errors s) @ js '' error'' @ plural (errors s)]
                    else parts0);
          parts2 = (if warnings s > 0
                    then parts1 @ [show_nat (warnings s) @ js '' warning'' @ plural (warnings s)]
                    else parts1);
          parts3 = (if suggestions s > 0
                    then parts2 @ [show_nat (suggestions s) @ js '' suggestion''
                                     @ plural (suggestions s)]
                    else parts2)
      in parts3)"

text \<open>The text built before the loop over the groups.\<close>

definition report_head :: "ValeSummary \<Rightarrow> jstring option \<Rightarrow> jstring" where
  "report_head s context =
     (let o0 = js ''## Vale Linting Results\<newline>\<newline>'';
          o1 = (if truthy context
                then o0 @ js ''**Context:** '' @ the context @ [LF, LF] else o0);
          o2 = o1 @ js ''**Summary:** '' @ show_nat (total s) @ js '' issue'' @ plural (total s)
                 @ js '' found'';
          parts = summary_parts s;
          o3 = (if length parts > 0 then o2 @ js '' ('' @ join_comma parts @ js '')'' else o2);
          o4 = o3 @ [LF, LF]
      in o4 @ js ''### Issues\<newline>\<newline>'')"

definition formatValeResults ::
  "NormalizedValeIssue list \<Rightarrow> ValeSummary \<Rightarrow> jstring option \<Rightarrow> jstring" where
  "formatValeResults iss s context =
     (if length iss = 0 then no_issues_message
      else foldl render_group (report_head s context) (grouped iss))"

text \<open>
  The rank of a recognized severity in the order of the report, and the block of the
  report that shows one issue under its own severity.
\<close>

definition severity_rank :: "NormalizedValeIssue \<Rightarrow> nat" where
  "severity_rank i =
     (if severity i = js ''error'' then 0 else if severity i = js ''warning'' then 1 else 2)"

definition issue_block :: "NormalizedValeIssue \<Rightarrow> jstring" where
  "issue_block i = render_issue (severity i) [] i"

section \<open>Platform and server state\<close>

text \<open>
  The rejection value of \<open>execAsync\<close>: whether it is an \<open>Error\<close>, and its \<open>message\<close>,
  \<open>stdout\<close> and \<open>stderr\<close> properties (\<open>None\<close> for \<open>undefined\<close>).
\<close>

record exec_failure =
  is_Error :: bool
  err_message :: "jstring option"
  err_stdout :: "jstring option"
  err_stderr :: "jstring option"

text \<open>\<open>Resolved stdout stderr\<close>: exit status zero. \<open>Rejected\<close>: any other outcome.\<close>

datatype exec_result = Resolved jstring jstring | Rejected exec_failure

record command =
  cmdline :: jstring
  workdir :: "jstring option"

text \<open>
  What the code asks of Node and of the host: the outcome of a child process (which may
  depend on the commands run before), \<open>fs.access(p, R_OK)\<close>, \<open>process.cwd()\<close>, the
  functions of \<open>path\<close>, \<open>JSON.parse\<close>, \<open>process.platform\<close>, the environment variable, the
  message of the \<open>TypeError\<close> raised when a property of \<open>undefined\<close> is destructured, and
  the \<open>stack\<close> of an error with a given message.
\<close>

record platform =
  exec :: "command list \<Rightarrow> command \<Rightarrow> exec_result"
  readable :: "jstring \<Rightarrow> bool"
  cwd :: jstring
  isAbsolute :: "jstring \<Rightarrow> bool"
  resolve :: "jstring list \<Rightarrow> jstring"
  dirname :: "jstring \<Rightarrow> jstring"
  join :: "jstring list \<Rightarrow> jstring"
  JSON_parse :: json_parser
  process_platform :: jstring
  VALE_CONFIG_PATH :: "jstring option"
  destructure_message :: "jstring \<Rightarrow> jstring"
  stack :: "jstring \<Rightarrow> jstring"

record install_status =
  installed :: bool
  version :: "jstring option"
  error :: "jstring option"

record install_cache = install_status +
  checked :: bool

text \<open>
  The module variables \<open>valeInstallCache\<close> (vale-runner.ts) and \<open>valeConfigPath\<close>
  (index.ts), and the list of the external commands run so far.
\<close>

record server_state =
  valeInstallCache :: install_cache
  valeConfigPath :: "jstring option"
  execs :: "command list"

definition unchecked_cache :: install_cache where
  "unchecked_cache = \<lparr>installed = False, version = None, error = None, checked = False\<rparr>"

definition initial_state :: server_state where
  "initial_state = \<lparr>valeInstallCache = unchecked_cache, valeConfigPath = None, execs = []\<rparr>"

definition execAsync :: "platform \<Rightarrow> command \<Rightarrow> server_state \<Rightarrow> exec_result \<times> server_state" where
  "execAsync P c st = (exec P (execs st) c, st\<lparr>execs := execs st @ [c]\<rparr>)"

section \<open>Tool invoker (vale-runner.ts)\<close>

subsection \<open>checkValeInstalled and clearValeInstallCache\<close>

definition version_query :: command where
  "version_query = \<lparr>cmdline = js ''vale --version'', workdir = None\<rparr>"

text \<open>The cache entry written after the version query.\<close>

definition probe_outcome :: "exec_result \<Rightarrow> install_cache" where
  "probe_outcome r =
     (case r of
        Resolved out err \<Rightarrow>
          \<lparr>installed = True, version = Some (trim out), error = None, checked = True\<rparr>
      | Rejected e \<Rightarrow>
          \<lparr>installed = False, version = None,
           error = (if is_Error e then err_message e
                    else Some (js ''Vale not found in PATH. To install Vale, go to https://vale.sh/docs/vale-cli/installation/'')),
           checked = True\<rparr>)"

definition cached_status :: "install_cache \<Rightarrow> install_status" where
  "cached_status c = \<lparr>installed = installed c, version = version c, error = error c\<rparr>"

definition checkValeInstalled :: "platform \<Rightarrow> server_state \<Rightarrow> install_status \<times> server_state" where
  "checkValeInstalled P st =
     (if checked (valeInstallCache st) then (cached_status (valeInstallCache st), st)
      else case execAsync P version_query st of
             (r, st1) \<Rightarrow>
               (let st2 = st1\<lparr>valeInstallCache := probe_outcome r\<rparr>
                in (cached_status (valeInstallCache st2), st2)))"

definition clearValeInstallCache :: "server_state \<Rightarrow> server_state" where
  "clearValeInstallCache st = st\<lparr>valeInstallCache := unchecked_cache\<rparr>"

subsection \<open>syncValeStyles\<close>

record sync_result =
  sync_success :: bool
  sync_message :: jstring
  sync_output :: "jstring option"
  sync_error :: "jstring option"

definition syncValeStyles ::
  "platform \<Rightarrow> jstring option \<Rightarrow> server_state \<Rightarrow> sync_result \<times> server_state" where
  "syncValeStyles P configPath st =
     (let use_config = (truthy configPath \<and> readable P (the configPath));
          workingDir = (if use_config then dirname P (resolve P [the configPath]) else cwd P);
          cmd = (if use_config
                 then js ''vale sync'' @ js '' --config='' @ [DQ] @ the configPath @ [DQ]
                 else js ''vale sync'')
      in case execAsync P \<lparr>cmdline = cmd, workdir = Some workingDir\<rparr> st of
           (Resolved out err, st1) \<Rightarrow>
             (\<lparr>sync_success = True,
               sync_message = js ''Vale styles synchronized successfully'',
               sync_output = Some (trim (out @ (if err \<noteq> [] then [LF] @ err else []))),
               sync_error = None\<rparr>, st1)
         | (Rejected e, st1) \<Rightarrow>
             (\<lparr>sync_success = False,
               sync_message = js ''Failed to sync Vale styles'',
               sync_output = None,
               sync_error = (if is_Error e then err_message e else Some (js ''Unknown error''))\<rparr>,
              st1))"

subsection \<open>checkFile\<close>

text \<open>The steps after the execution: parse, normalize, summarize, format.\<close>

definition check_output :: "platform \<Rightarrow> jstring \<Rightarrow> jstring \<Rightarrow> error + CheckFileResult" where
  "check_output P absolutePath stdout =
     (case parseValeOutput (JSON_parse P) stdout of
        Inl e \<Rightarrow> Inl e
      | Inr rawOutput \<Rightarrow>
          (let iss = normalizeIssues rawOutput;
               s = generateSummary iss
           in Inr \<lparr>formatted = formatValeResults iss s (Some absolutePath),
                   file_path = absolutePath, issues = iss, summary = s\<rparr>))"

definition absolute_path :: "platform \<Rightarrow> jstring \<Rightarrow> jstring" where
  "absolute_path P filePath =
     (if isAbsolute P filePath then filePath else resolve P [cwd P, filePath])"

definition check_command :: "platform \<Rightarrow> jstring \<Rightarrow> jstring option \<Rightarrow> command" where
  "check_command P filePath configPath =
     (let absolutePath = absolute_path P filePath;
          c0 = js ''vale --output=JSON'';
          c1 = (if truthy configPath
                then c0 @ js '' --config='' @ [DQ] @ the configPath @ [DQ] else c0)
      in \<lparr>cmdline = c1 @ js '' '' @ [DQ] @ absolutePath @ [DQ],
          workdir = Some (dirname P absolutePath)\<rparr>)"

text \<open>\<open>error.stderr || error.message || "Unknown error"\<close>\<close>

definition failure_text :: "exec_failure \<Rightarrow> jstring" where
  "failure_text e =
     (if truthy (err_stderr e) then the (err_stderr e)
      else if truthy (err_message e) then the (err_message e)
      else js ''Unknown error'')"

definition checkFile ::
  "platform \<Rightarrow> jstring \<Rightarrow> jstring option \<Rightarrow> server_state
     \<Rightarrow> (error + CheckFileResult) \<times> server_state" where
  "checkFile P filePath configPath st =
     (if \<not> readable P filePath
      then (Inl (FileNotFound (js ''File not found or not readable: '' @ filePath)), st)
      else case execAsync P (check_command P filePath configPath) st of
             (Resolved out err, st1) \<Rightarrow> (check_output P (absolute_path P filePath) out, st1)
           | (Rejected e, st1) \<Rightarrow>
               if truthy (err_stdout e)
               then (check_output P (absolute_path P filePath) (the (err_stdout e)), st1)
               else (Inl (ToolExecutionFailed (js ''Vale execution failed: '' @ failure_text e)),
                     st1))"

section \<open>Config resolver (config.ts)\<close>

record ValeServerConfig =
  configPath :: "jstring option"

definition loadConfig :: "platform \<Rightarrow> ValeServerConfig" where
  "loadConfig P =
     (if truthy (VALE_CONFIG_PATH P) then \<lparr>configPath = VALE_CONFIG_PATH P\<rparr>
      else \<lparr>configPath = None\<rparr>)"

definition findValeIniInWorkingDir :: "platform \<Rightarrow> jstring option" where
  "findValeIniInWorkingDir P =
     (let valeIniPath = join P [cwd P, js ''.vale.ini'']
      in if readable P valeIniPath then Some valeIniPath else None)"

definition verifyConfigFile :: "platform \<Rightarrow> jstring \<Rightarrow> bool" where
  "verifyConfigFile P p = readable P p"

definition resolveConfigPath :: "platform \<Rightarrow> jstring \<Rightarrow> jstring" where
  "resolveConfigPath P p = (if isAbsolute P p then p else resolve P [cwd P, p])"

section \<open>Capability dispatcher (index.ts)\<close>

subsection \<open>Installation instructions\<close>

record install_method =
  method_name :: jstring
  method_command :: jstring
  method_url :: "jstring option"

record instructions =
  instr_platform :: jstring
  instr_documentation :: jstring
  instr_methods :: "install_method list"

definition releases_url :: jstring where
  "releases_url = js ''https://github.com/errata-ai/vale/releases''"

definition getInstallationInstructions :: "platform \<Rightarrow> instructions" where
  "getInstallationInstructions P =
     \<lparr>instr_platform = process_platform P,
      instr_documentation = js ''https://vale.sh/docs/vale-cli/installation/'',
      instr_methods =
        (if process_platform P = js ''darwin'' then
           [\<lparr>method_name = js ''Homebrew (recommended)'', method_command = js ''brew install vale'',
             method_url = None\<rparr>,
            \<lparr>method_name = js ''Download binary'',
             method_command = js ''Download from GitHub releases'',
             method_url = Some releases_url\<rparr>]
         else if process_platform P = js ''linux'' then
           [\<lparr>method_name = js ''Snap'', method_command = js ''sudo snap install vale'',
             method_url = None\<rparr>,
            \<lparr>method_name = js ''Download binary'',
             method_command = js ''Download from GitHub releases and add to PATH'',
             method_url = Some releases_url\<rparr>]
         else if process_platform P = js ''win32'' then
           [\<lparr>method_name = js ''Chocolatey'', method_command = js ''choco install vale'',
             method_url = None\<rparr>,
            \<lparr>method_name = js ''Scoop'', method_command = js ''scoop install vale'',
             method_url = None\<rparr>,
            \<lparr>method_name = js ''Download binary'',
             method_command = js ''Download from GitHub releases'',
             method_url = Some releases_url\<rparr>]
         else
           [\<lparr>method_name = js ''Download binary'',
             method_command = js ''Download from GitHub releases'',
             method_url = Some releases_url\<rparr>])\<rparr>"

subsection \<open>Responses\<close>

text \<open>
  The value handed to \<open>JSON.stringify\<close>. A property whose value is \<open>undefined\<close> is left
  out of the serialized object: \<open>obj\<close> drops it.
\<close>

datatype json = JNull | JBool bool | JStr jstring | JArr "json list" | JObj "(jstring \<times> json) list"

definition obj :: "(jstring \<times> json option) list \<Rightarrow> json" where
  "obj props = JObj (List.map_filter (\<lambda>(k, v). map_option (Pair k) v) props)"

text \<open>The properties of a serialized object.\<close>

fun properties :: "json \<Rightarrow> (jstring \<times> json) list" where
  "properties (JObj kvs) = kvs"
| "properties _ = []"

definition method_json :: "install_method \<Rightarrow> json" where
  "method_json m =
     obj [(js ''name'', Some (JStr (method_name m))),
          (js ''command'', Some (JStr (method_command m))),
          (js ''url'', map_option JStr (method_url m))]"

definition instructions_json :: "instructions \<Rightarrow> json" where
  "instructions_json i =
     obj [(js ''platform'', Some (JStr (instr_platform i))),
          (js ''documentation'', Some (JStr (instr_documentation i))),
          (js ''methods'', Some (JArr (map method_json (instr_methods i))))]"

text \<open>
  The text of the single content item: the serialization of a JSON value, or plain text.
  \<open>meta\<close> is \<open>_meta.structured_data\<close>.
\<close>

datatype content = JsonText json | Text jstring

record structured_data =
  sd_file :: jstring
  sd_issues :: "NormalizedValeIssue list"
  sd_summary :: ValeSummary

record response =
  content :: content
  meta :: "structured_data option"

definition createValeNotInstalledResponse :: "platform \<Rightarrow> response" where
  "createValeNotInstalledResponse P =
     \<lparr>content = JsonText (obj
        [(js ''error'', Some (JStr (js ''Vale is not installed or not found in PATH''))),
         (js ''vale_required'', Some (JBool True)),
         (js ''installation_instructions'',
            Some (instructions_json (getInstallationInstructions P))),
         (js ''message'', Some (JStr (js ''Please install Vale to use this feature. Vale is a command-line tool for prose linting.'')))]),
      meta = None\<rparr>"

subsection \<open>isStylesDirectoryError\<close>

text \<open>
  \<open>/E100|does not exist|Runtime error/i.test(errorMessage)\<close>: a search for one of three
  ASCII texts, letters compared without case. Under the \<open>i\<close> flag a code unit outside ASCII
  never equals an ASCII one.
\<close>

fun contains :: "jstring \<Rightarrow> jstring \<Rightarrow> bool" where
  "contains p [] = (p = [])"
| "contains p (c # cs) = (take (length p) (c # cs) = p \<or> contains p cs)"

definition contains_ci :: "jstring \<Rightarrow> jstring \<Rightarrow> bool" where
  "contains_ci p s = contains (map upper_unit p) (map upper_unit s)"

definition isStylesDirectoryError :: "jstring \<Rightarrow> bool" where
  "isStylesDirectoryError errorMessage =
     (contains_ci (js ''E100'') errorMessage \<or> contains_ci (js ''does not exist'') errorMessage
      \<or> contains_ci (js ''Runtime error'') errorMessage)"

subsection \<open>The handler of CallToolRequestSchema\<close>

text \<open>The \<open>arguments\<close> of a request, when present: the two properties the tools read.\<close>

record tool_args =
  path :: "jstring option"
  config_path :: "jstring option"

definition status_response :: "platform \<Rightarrow> install_status \<Rightarrow> response" where
  "status_response P valeCheck =
     \<lparr>content = JsonText (obj
        [(js ''installed'', Some (JBool (installed valeCheck))),
         (js ''version'', map_option JStr (version valeCheck)),
         (js ''platform'', Some (JStr (process_platform P))),
         (js ''installation_instructions'',
            Some (if installed valeCheck then JNull
                  else instructions_json (getInstallationInstructions P))),
         (js ''message'',
            Some (JStr (if installed valeCheck
                        then js ''Vale is installed and ready to use ('' @ tmpl (version valeCheck)
                               @ js '')''
                        else js ''Vale is not installed. Please install it to use Vale linting tools.'')))]),
      meta = None\<rparr>"

text \<open>\<open>config_path || valeConfigPath\<close>\<close>

definition effectiveConfigPath :: "tool_args \<Rightarrow> server_state \<Rightarrow> jstring option" where
  "effectiveConfigPath a st =
     (if truthy (config_path a) then config_path a else valeConfigPath st)"

definition fence_block :: "jstring \<Rightarrow> jstring \<Rightarrow> jstring" where
  "fence_block title body = title @ [LF] @ js ''```'' @ [LF] @ body @ [LF] @ js ''```''"

definition sync_response :: "sync_result \<Rightarrow> response" where
  "sync_response r =
     (if sync_success r then
        \<lparr>content = Text
           ([0x201A, 0xFA, 0xD6] @ js '' **Vale Sync Successful**'' @ [LF, LF]
            @ sync_message r @ [LF, LF]
            @ (if truthy (sync_output r) then fence_block (js ''**Output:**'') (the (sync_output r))
               else [])
            @ [LF, LF]
            @ js ''The styles have been downloaded and are ready to use. You can now run `check_file` again.''),
         meta = None\<rparr>
      else
        \<lparr>content = Text
           ([0x201A, 0xF9, 0xE5] @ js '' **Vale Sync Failed**'' @ [LF, LF]
            @ sync_message r @ [LF, LF]
            @ (if truthy (sync_error r) then fence_block (js ''**Error:**'') (the (sync_error r))
               else [])
            @ [LF, LF]
            @ js ''Please check your .vale.ini configuration and ensure:'' @ [LF]
            @ js ''1. The StylesPath is correct'' @ [LF]
            @ js ''2. Packages are properly defined'' @ [LF]
            @ js ''3. You have internet connectivity to download packages'' @ [LF, LF]
            @ js ''See Vale documentation: https://vale.sh/docs/topics/packages/''),
         meta = None\<rparr>)"

definition missing_path_response :: response where
  "missing_path_response =
     \<lparr>content = JsonText (obj [(js ''error'', Some (JStr (js ''Missing required parameter: path'')))]),
      meta = None\<rparr>"

definition unknown_tool_response :: "jstring \<Rightarrow> response" where
  "unknown_tool_response name =
     \<lparr>content = JsonText (obj [(js ''error'', Some (JStr (js ''Unknown tool: '' @ name)))]),
      meta = None\<rparr>"

definition check_file_response :: "CheckFileResult \<Rightarrow> response" where
  "check_file_response r =
     \<lparr>content = Text (formatted r),
      meta = Some \<lparr>sd_file = file_path r, sd_issues = issues r, sd_summary = summary r\<rparr>\<rparr>"

fun error_message :: "error \<Rightarrow> jstring" where
  "error_message (FileNotFound m) = m"
| "error_message (ToolExecutionFailed m) = m"
| "error_message (MalformedToolOutput m) = m"

text \<open>
  The \<open>try\<close> block of the handler. \<open>Inl\<close> carries the message of an error thrown inside
  it; \<open>args = None\<close> is a request without \<open>arguments\<close>, whose destructuring throws.
\<close>

definition call_tool_try ::
  "platform \<Rightarrow> jstring \<Rightarrow> tool_args option \<Rightarrow> server_state
     \<Rightarrow> (jstring + response) \<times> server_state" where
  "call_tool_try P name args st =
     (if name = js ''vale_status'' then
        (case checkValeInstalled P st of
           (valeCheck, st1) \<Rightarrow> (Inr (status_response P valeCheck), st1))
      else if name = js ''vale_sync'' then
        (case args of
           None \<Rightarrow> (Inl (destructure_message P (js ''config_path'')), st)
         | Some a \<Rightarrow>
             (case checkValeInstalled P st of
                (valeCheck, st1) \<Rightarrow>
                  if \<not> installed valeCheck then (Inr (createValeNotInstalledResponse P), st1)
                  else (case syncValeStyles P (effectiveConfigPath a st1) st1 of
                          (syncResult, st2) \<Rightarrow> (Inr (sync_response syncResult), st2))))
      else if name = js ''check_file'' then
        (case args of
           None \<Rightarrow> (Inl (destructure_message P (js ''path'')), st)
         | Some a \<Rightarrow>
             if \<not> truthy (path a) then (Inr missing_path_response, st)
             else (case checkValeInstalled P st of
                     (valeCheck, st1) \<Rightarrow>
                       if \<not> installed valeCheck then (Inr (createValeNotInstalledResponse P), st1)
                       else (case checkFile P (the (path a)) (valeConfigPath st1) st1 of
                               (Inl e, st2) \<Rightarrow> (Inl (error_message e), st2)
                             | (Inr result, st2) \<Rightarrow> (Inr (check_file_response result), st2))))
      else (Inr (unknown_tool_response name), st))"

definition styles_error_response :: "jstring \<Rightarrow> response" where
  "styles_error_response errorMessage =
     \<lparr>content = Text
        ([0x201A, 0xF9, 0xE5] @ js '' **Vale Configuration Error**'' @ [LF, LF]
         @ errorMessage @ [LF, LF]
         @ js ''This error indicates that Vale'' @ [0x27] @ js ''s styles directory is missing or the configured packages haven''
         @ [0x27] @ js ''t been downloaded yet.'' @ [LF, LF]
         @ js ''**Solution:**'' @ [LF]
         @ js ''Run the `vale_sync` tool to download the required style packages:'' @ [LF, LF]
         @ js ''```'' @ [LF] @ js ''vale_sync'' @ [LF] @ js ''```'' @ [LF, LF]
         @ js ''This will:'' @ [LF]
         @ js ''1. Read your .vale.ini configuration'' @ [LF]
         @ js ''2. Download all configured style packages'' @ [LF]
         @ js ''3. Create the necessary styles directory'' @ [LF, LF]
         @ js ''After running `vale_sync`, you can try `check_file` again.'' @ [LF, LF]
         @ js ''For more information, see: https://vale.sh/docs/topics/packages/''),
      meta = None\<rparr>"

definition generic_error_response :: "platform \<Rightarrow> jstring \<Rightarrow> response" where
  "generic_error_response P errorMessage =
     \<lparr>content = JsonText (obj [(js ''error'', Some (JStr errorMessage)),
                               (js ''details'', Some (JStr (stack P errorMessage)))]),
      meta = None\<rparr>"

text \<open>The handler: the \<open>try\<close> block and its \<open>catch\<close>.\<close>

definition call_tool ::
  "platform \<Rightarrow> jstring \<Rightarrow> tool_args option \<Rightarrow> server_state \<Rightarrow> response \<times> server_state" where
  "call_tool P name args st =
     (case call_tool_try P name args st of
        (Inr r, st1) \<Rightarrow> (r, st1)
      | (Inl errorMessage, st1) \<Rightarrow>
          (if isStylesDirectoryError errorMessage then styles_error_response errorMessage
           else generic_error_response P errorMessage, st1))"

subsection \<open>initializeValeConfig\<close>

text \<open>The lines written to the error stream when the tool is not installed.\<close>

definition method_lines :: "install_method \<Rightarrow> jstring list" where
  "method_lines m =
     [js ''  '' @ method_name m @ js '': '' @ method_command m]
     @ (if truthy (method_url m) then [js ''    '' @ the (method_url m)] else [])"

definition not_installed_lines :: "platform \<Rightarrow> jstring list" where
  "not_installed_lines P =
     (let instr = getInstallationInstructions P
      in [js ''WARNING: Vale is not installed or not in PATH'',
          js ''The server will start, but linting tools will not work until Vale is installed.'',
          [],
          js ''Installation instructions:'']
         @ concat (map method_lines (instr_methods instr))
         @ [[],
            js ''Documentation: '' @ instr_documentation instr,
            [],
            js ''Use the '' @ [0x27] @ js ''vale_status'' @ [0x27]
              @ js '' tool to check installation status after installing.'',
            []])"

definition no_ini_lines :: "platform \<Rightarrow> jstring list" where
  "no_ini_lines P =
     [js ''WARNING: No .vale.ini file found in the current working directory'',
      js ''Current working directory: '' @ cwd P,
      [],
      js ''Vale will use default settings or search parent directories.'',
      js ''For best results, create a .vale.ini file in your project directory.'',
      [],
      js ''Example .vale.ini:'',
      js ''  StylesPath = styles'',
      js ''  Packages = write-good, proselint'',
      [],
      js ''  [*]'',
      js ''  BasedOnStyles = write-good, proselint'',
      []]"

definition env_warning :: "jstring \<Rightarrow> jstring" where
  "env_warning p = js ''WARNING: VALE_CONFIG_PATH points to non-existent file: '' @ p"

text \<open>Priority 2 of the source: \<open>.vale.ini\<close> in the current working directory.\<close>

definition working_dir_config ::
  "platform \<Rightarrow> jstring list \<Rightarrow> server_state \<Rightarrow> jstring list \<times> server_state" where
  "working_dir_config P log st =
     (let workingDirConfig = findValeIniInWorkingDir P
      in if truthy workingDirConfig
         then (log @ [js ''Using .vale.ini from working directory: '' @ the workingDirConfig],
               st\<lparr>valeConfigPath := workingDirConfig\<rparr>)
         else (log @ no_ini_lines P, st))"

text \<open>
  \<open>initializeValeConfig\<close> returns the lines it writes with \<open>console.error\<close> and the new
  state. \<open>config\<close> is \<open>loadConfig()\<close>, evaluated when the module is loaded.
\<close>

definition initializeValeConfig :: "platform \<Rightarrow> server_state \<Rightarrow> jstring list \<times> server_state" where
  "initializeValeConfig P st =
     (case checkValeInstalled P st of
        (valeCheck, st1) \<Rightarrow>
          if \<not> installed valeCheck then (not_installed_lines P, st1)
          else
            (let log0 = [js ''Vale version: '' @ tmpl (version valeCheck)];
                 config = loadConfig P
             in if truthy (configPath config) then
                  (let resolvedPath = resolveConfigPath P (the (configPath config))
                   in if verifyConfigFile P resolvedPath
                      then (log0 @ [js ''Using Vale config from VALE_CONFIG_PATH: '' @ resolvedPath],
                            st1\<lparr>valeConfigPath := Some resolvedPath\<rparr>)
                      else working_dir_config P
                             (log0 @ [env_warning (the (configPath config))]) st1)
                else working_dir_config P log0 st1))"

section \<open>Observations and sample inputs\<close>

text \<open>
  The cache entries that the code writes: an entry marked as checked says "installed"
  exactly when it holds a version.
\<close>

definition cache_ok :: "install_cache \<Rightarrow> bool" where
  "cache_ok c = (if checked c then installed c = (version c \<noteq> None) else True)"

text \<open>The properties of the object serialized in a response; none for plain text.\<close>

definition response_fields :: "response \<Rightarrow> (jstring \<times> json) list" where
  "response_fields r = (case content r of JsonText j \<Rightarrow> properties j | Text t \<Rightarrow> [])"

text \<open>
  The raw output of the end-to-end scenario of the specification, one file with one issue:
  \<open>{"a.md":[{"Line":3,"Span":[1,5],"Check":"Vale.Spelling","Message":"Typo","Severity":"error"}]}\<close>
\<close>

definition quoted :: "string \<Rightarrow> jstring" where
  "quoted s = [DQ] @ js s @ [DQ]"

definition sample_stdout :: jstring where
  "sample_stdout =
     js ''{'' @ quoted ''a.md'' @ js '':[{'' @ quoted ''Line'' @ js '':3,'' @ quoted ''Span''
     @ js '':[1,5],'' @ quoted ''Check'' @ js '':'' @ quoted ''Vale.Spelling'' @ js '',''
     @ quoted ''Message'' @ js '':'' @ quoted ''Typo'' @ js '','' @ quoted ''Severity'' @ js '':''
     @ quoted ''error'' @ js ''}]}''"

definition sample_raw :: ValeRawOutput where
  "sample_raw =
     [(js ''a.md'',
       [\<lparr>Line = 3, Span = (1, 5), Check = js ''Vale.Spelling'', Message = js ''Typo'',
         Severity = js ''error'', Link = None, Match = None, Action = None\<rparr>])]"

definition sample_error :: NormalizedValeIssue where
  "sample_error =
     \<lparr>line = 3, span = (1, 5), check = js ''Vale.Spelling'', message = js ''Typo'',
      severity = js ''error'', link = None, match = None\<rparr>"

definition sample_warning :: NormalizedValeIssue where
  "sample_warning =
     \<lparr>line = 1, span = (7, 11), check = js ''Vale.Terms'', message = js ''Use Vale'',
      severity = js ''warning'', link = None, match = Some (js ''vale'')\<rparr>"

definition sample_info :: NormalizedValeIssue where
  "sample_info =
     \<lparr>line = 1, span = (1, 2), check = js ''Vale.Terms'', message = js ''Note'',
      severity = js ''info'', link = None, match = None\<rparr>"

text \<open>
  A host for the sample runs: every child process ends with the given outcome, every path
  is absolute and readable, the working directory is \<open>/work\<close>, no environment variable is
  set, and the parser knows the two texts \<open>{}\<close> and \<open>sample_stdout\<close>.
\<close>

definition sample_platform :: "exec_result \<Rightarrow> platform" where
  "sample_platform r =
     \<lparr>exec = (\<lambda>cmds c. r), readable = (\<lambda>p. True), cwd = js ''/work'',
      isAbsolute = (\<lambda>p. True), resolve = concat, dirname = (\<lambda>p. js ''/work''),
      join = (\<lambda>segs. foldr (\<lambda>a b. if b = [] then a else a @ js ''/'' @ b) segs []),
      JSON_parse = (\<lambda>s. if s = js ''{}'' then Inr []
                         else if s = sample_stdout then Inr sample_raw
                         else Inl (js ''Unexpected token'')),
      process_platform = js ''linux'', VALE_CONFIG_PATH = None,
      destructure_message = (\<lambda>k. js ''Cannot destructure property''),
      stack = (\<lambda>m. js ''Error'')\<rparr>"

text \<open>Three outcomes of a child process: a failure without output, a run that reports
  issues (exit status not zero, output on stdout), and a version query that succeeds.\<close>

definition silent_failure :: exec_result where
  "silent_failure =
     Rejected \<lparr>is_Error = True, err_message = Some (js ''Command failed: vale''),
               err_stdout = Some [], err_stderr = Some (js ''E100 [loadStyles] Runtime error'')\<rparr>"

definition issues_reported :: exec_result where
  "issues_reported =
     Rejected \<lparr>is_Error = True, err_message = Some (js ''Command failed: vale''),
               err_stdout = Some sample_stdout, err_stderr = Some []\<rparr>"

definition version_reported :: exec_result where
  "version_reported = Resolved (js ''vale version 3.0.0'' @ [LF]) []"

section \<open>Properties of the summary\<close>

lemma count_issue_total: "total (count_issue s i) = total s"
  by (simp add: count_issue_def)

lemma foldl_count_total: "total (foldl count_issue s iss) = total s"
  by (induction iss arbitrary: s) (simp_all add: count_issue_total)

lemma count_issue_buckets:
  "errors (count_issue s i) + warnings (count_issue s i) + suggestions (count_issue s i)
     = errors s + warnings s + suggestions s + (if recognized i then 1 else 0)"
  by (simp add: count_issue_def recognized_def)

lemma foldl_count_buckets:
  "errors (foldl count_issue s iss) + warnings (foldl count_issue s iss)
     + suggestions (foldl count_issue s iss)
     = errors s + warnings s + suggestions s + length (filter recognized iss)"
proof (induction iss arbitrary: s)
  case Nil
  show ?case by simp
next
  case (Cons i iss)
  show ?case
    using Cons.IH [of "count_issue s i"] count_issue_buckets [of s i] by simp
qed

lemma generateSummary_buckets:
  "errors (generateSummary iss) + warnings (generateSummary iss) + suggestions (generateSummary iss)
     = length (filter recognized iss)"
  using foldl_count_buckets [of "\<lparr>total = length iss, errors = 0, warnings = 0, suggestions = 0\<rparr>" iss]
  by (simp add: generateSummary_def)

lemma generateSummary_total: "total (generateSummary iss) = length iss"
  by (simp add: generateSummary_def foldl_count_total)

text \<open>
  Claim C2, as amended. For every issue list the total of the summary is the length of the
  list. The three severity counts add up to the number of issues with a recognized
  severity, so the total is their sum when every severity is recognized.
\<close>

theorem summary_total_counts:
  "total (generateSummary iss) = length iss
   \<and> errors (generateSummary iss) + warnings (generateSummary iss)
       + suggestions (generateSummary iss) = length (filter recognized iss)
   \<and> (list_all recognized iss \<longrightarrow>
        total (generateSummary iss)
          = errors (generateSummary iss) + warnings (generateSummary iss)
              + suggestions (generateSummary iss))"
proof -
  have "list_all recognized iss \<longrightarrow> length (filter recognized iss) = length iss"
    by (simp add: list_all_iff)
  then show ?thesis
    by (simp add: generateSummary_total generateSummary_buckets)
qed

theorem summary_total_counts_witness:
  "list_all recognized [sample_warning, sample_error]
   \<and> generateSummary [sample_warning, sample_error]
       = \<lparr>total = 2, errors = 1, warnings = 1, suggestions = 0\<rparr>"
  using summary_total_counts [of "[sample_warning, sample_error]"]
  by (simp add: recognized_def generateSummary_def count_issue_def sample_error_def
      sample_warning_def js_def)

text \<open>
  Claim C2 as stated fails: one issue whose severity is \<open>info\<close> gives the total 1 while
  the three severity counts are all 0.
\<close>

theorem summary_unrecognized_severity_counterexample:
  "generateSummary [sample_info] = \<lparr>total = 1, errors = 0, warnings = 0, suggestions = 0\<rparr>"
  by (simp add: generateSummary_def count_issue_def sample_info_def js_def)

section \<open>Properties of stripCodeFence and parseValeOutput\<close>

lemma space_LF: "is_space LF"
  by (simp add: is_space_def LF_def)

lemma not_space_BT: "\<not> is_space BT"
  by (simp add: is_space_def BT_def)

lemma js_fence3: "js ''```'' = [BT, BT, BT]"
  by (simp add: js_def BT_def)

lemma BT_not_LF: "BT \<noteq> LF"
  by (simp add: BT_def LF_def)

lemma wrapFence_eq:
  "wrapFence t = js ''```json'' @ LF # t @ [LF, BT, BT, BT]"
  by (simp add: wrapFence_def js_def LF_def BT_def)

lemma length_fence_open: "length (js ''```json'') = 7"
  by (simp add: js_def)

lemma not_all_space_last:
  assumes "xs \<noteq> []" and "\<not> is_space (last xs)"
  shows "\<not> list_all is_space xs"
  using assms by (induction xs) (auto split: if_splits)

lemma closes_here_long:
  assumes "3 < length r" and "last r = BT"
  shows "\<not> closes_here r"
proof -
  have "drop 3 r \<noteq> []" using assms(1) by simp
  moreover have "last (drop 3 r) = BT" using assms by (simp add: last_drop)
  ultimately have "\<not> list_all is_space (drop 3 r)"
    using not_all_space_last not_space_BT by metis
  then show ?thesis by (simp add: closes_here_def)
qed

lemma close_match_tail:
  "\<not> close_match (c # u @ [LF, BT, BT, BT])"
proof -
  have a: "\<not> closes_here (u @ [LF, BT, BT, BT])"
    by (rule closes_here_long) simp_all
  have b: "\<not> closes_here (c # u @ [LF, BT, BT, BT])"
    by (rule closes_here_long) simp_all
  show ?thesis using a b by (simp add: close_match_def)
qed

lemma closes_here_fence: "closes_here [BT, BT, BT]"
  by (simp add: closes_here_def js_fence3)

lemma strip_close_tail: "strip_close (u @ [LF, BT, BT, BT]) = u"
proof (induction u)
  case Nil
  show ?case using closes_here_fence by (simp add: close_match_def)
next
  case (Cons c u)
  then show ?case using close_match_tail [of c u] by simp
qed

lemma strip_close_fence: "strip_close [BT, BT, BT] = []"
  using closes_here_fence by (simp add: close_match_def)

lemma dropWhile_all: "list_all P xs \<Longrightarrow> dropWhile P (xs @ ys) = dropWhile P ys"
  by (induction xs) simp_all

lemma dropWhile_not_all:
  "\<not> list_all P xs \<Longrightarrow> dropWhile P (xs @ ys) = dropWhile P xs @ ys"
  by (induction xs) simp_all

lemma dropWhile_head: "dropWhile P xs = c # r \<Longrightarrow> \<not> P c"
  by (induction xs) (auto split: if_splits)

lemma strip_open_wrap:
  "strip_open (wrapFence t) =
     (if list_all is_space t then [BT, BT, BT] else dropWhile is_space t @ [LF, BT, BT, BT])"
proof (cases "list_all is_space t")
  case True
  have "dropWhile is_space (LF # t @ [LF, BT, BT, BT]) = [BT, BT, BT]"
    using True space_LF not_space_BT dropWhile_all [of is_space t "[LF, BT, BT, BT]"] by simp
  then show ?thesis
    using True BT_not_LF by (simp add: strip_open_def wrapFence_eq length_fence_open)
next
  case False
  then obtain c r where cr: "dropWhile is_space t = c # r"
    by (cases "dropWhile is_space t") (auto simp: list_all_iff dropWhile_eq_Nil_conv)
  then have "\<not> is_space c" by (rule dropWhile_head)
  then have "c \<noteq> LF" using space_LF by auto
  moreover have "dropWhile is_space (LF # t @ [LF, BT, BT, BT]) = c # r @ [LF, BT, BT, BT]"
    using False space_LF cr dropWhile_not_all [of is_space t "[LF, BT, BT, BT]"] by simp
  ultimately show ?thesis
    using False cr by (simp add: strip_open_def wrapFence_eq length_fence_open)
qed

lemma trim_all_space: "list_all is_space t \<Longrightarrow> trim t = []"
proof -
  assume "list_all is_space t"
  then have "dropWhile is_space t = []" by (simp add: list_all_iff)
  then show ?thesis unfolding trim_def by (simp del: dropWhile_eq_Nil_conv)
qed

lemma trim_dropWhile: "trim (dropWhile is_space t) = trim t"
  by (simp add: trim_def)

lemma stripCodeFence_wrap: "stripCodeFence (wrapFence t) = trim t"
proof (cases "list_all is_space t")
  case True
  then have "strip_close (strip_open (wrapFence t)) = []"
    by (simp only: strip_open_wrap if_True strip_close_fence)
  then have "stripCodeFence (wrapFence t) = trim []" by (simp only: stripCodeFence_def)
  moreover have "trim [] = []" by (simp add: trim_def)
  ultimately show ?thesis using trim_all_space [OF True] by simp
next
  case False
  then have "strip_close (strip_open (wrapFence t)) = dropWhile is_space t"
    by (simp only: strip_open_wrap if_False strip_close_tail)
  then show ?thesis by (simp add: stripCodeFence_def trim_dropWhile)
qed

lemma closes_here_has_close:
  assumes "closes_here r"
  shows "has_close_fence (p @ r)"
proof -
  have r: "r = [BT, BT, BT] @ drop 3 r" and ws: "list_all is_space (drop 3 r)"
    using assms append_take_drop_id [of 3 r] by (simp_all add: closes_here_def js_fence3)
  have "rev (p @ r) = rev (drop 3 r) @ [BT, BT, BT] @ rev p"
    using arg_cong [OF r, of rev] by simp
  moreover have "list_all is_space (rev (drop 3 r))"
    using ws by (simp add: list_all_iff)
  ultimately have "dropWhile is_space (rev (p @ r)) = dropWhile is_space ([BT, BT, BT] @ rev p)"
    using dropWhile_all by metis
  then show ?thesis using not_space_BT by (simp add: has_close_fence_def js_fence3)
qed

lemma close_match_has_close:
  assumes "close_match s"
  shows "has_close_fence (p @ s)"
proof (cases "closes_here s")
  case True
  then show ?thesis by (rule closes_here_has_close)
next
  case False
  then obtain r' where s: "s = LF # r'" and c: "closes_here r'"
    using assms by (auto simp: close_match_def split: list.splits)
  have "has_close_fence ((p @ [LF]) @ r')" using c by (rule closes_here_has_close)
  then show ?thesis using s by simp
qed

lemma strip_close_changed:
  "strip_close s \<noteq> s \<Longrightarrow> has_close_fence (p @ s)"
proof (induction s arbitrary: p)
  case Nil
  then show ?case by simp
next
  case (Cons c cs)
  show ?case
  proof (cases "close_match (c # cs)")
    case True
    then show ?thesis by (rule close_match_has_close)
  next
    case False
    then have "strip_close cs \<noteq> cs" using Cons.prems by simp
    then have "has_close_fence ((p @ [c]) @ cs)" by (rule Cons.IH)
    then show ?thesis by simp
  qed
qed

lemma stripCodeFence_unfenced:
  assumes "\<not> has_open_fence t" and "\<not> has_close_fence t"
  shows "stripCodeFence t = trim t"
proof -
  have "strip_open t = t" using assms(1) by (simp add: strip_open_def has_open_fence_def)
  moreover have "strip_close t = t" using strip_close_changed [of t "[]"] assms(2) by auto
  ultimately show ?thesis by (simp add: stripCodeFence_def)
qed

lemma trim_id:
  assumes "s \<noteq> []" and "\<not> is_space (hd s)" and "\<not> is_space (last s)"
  shows "trim s = s"
proof -
  have "dropWhile is_space s = s" using assms(1,2) by (cases s) simp_all
  moreover have "dropWhile is_space (rev s) = rev s"
    using assms(1,3) by (cases "rev s") (simp_all add: last_rev [symmetric] del: last_rev)
  ultimately show ?thesis by (simp add: trim_def)
qed

lemma trim_wrapFence: "trim (wrapFence t) = wrapFence t"
proof (rule trim_id)
  show "wrapFence t \<noteq> []" by (simp add: wrapFence_eq)
  show "\<not> is_space (hd (wrapFence t))" using not_space_BT by (simp add: wrapFence_eq js_def BT_def)
  show "\<not> is_space (last (wrapFence t))" using not_space_BT by (simp add: wrapFence_eq)
qed

lemma space_not_fenced:
  assumes "list_all is_space t"
  shows "\<not> has_open_fence t" and "\<not> has_close_fence t"
proof -
  show "\<not> has_open_fence t"
  proof
    assume "has_open_fence t"
    then have "take 7 t = BT # js ''``json''" by (simp add: has_open_fence_def js_def BT_def)
    then have "BT \<in> set (take 7 t)" by simp
    then have "BT \<in> set t" by (rule in_set_takeD)
    then show False using assms not_space_BT by (auto simp: list_all_iff)
  qed
  have "dropWhile is_space (rev t) = []" using assms by (simp add: list_all_iff)
  then show "\<not> has_close_fence t"
    unfolding has_close_fence_def by (simp add: js_def del: dropWhile_eq_Nil_conv)
qed

lemma stripCodeFence_space: "list_all is_space t \<Longrightarrow> stripCodeFence t = []"
  using space_not_fenced [of t] by (simp add: stripCodeFence_unfenced trim_all_space)

text \<open>
  Claim C5, as amended. For a text that carries no fence of its own (it does not begin
  with \<open>```json\<close> and, trailing white space aside, does not end with \<open>```\<close>), parsing the
  text wrapped in a code fence gives the same result, and so the same normalized issues, as
  parsing the text itself. For every text, stripping the wrapped text leaves the text
  without its leading and trailing white space, and exactly one wrapper is removed: a text
  wrapped twice is stripped to the text wrapped once.
\<close>

theorem fenced_output_parses_alike:
  "(\<not> has_open_fence t \<and> \<not> has_close_fence t \<longrightarrow>
      parseValeOutput J (wrapFence t) = parseValeOutput J t
      \<and> map_sum id normalizeIssues (parseValeOutput J (wrapFence t))
          = map_sum id normalizeIssues (parseValeOutput J t))
   \<and> stripCodeFence (wrapFence t) = trim t
   \<and> stripCodeFence (wrapFence (wrapFence t)) = wrapFence t"
  by (simp add: parseValeOutput_def stripCodeFence_wrap stripCodeFence_unfenced trim_wrapFence)

theorem fenced_output_parses_alike_witness:
  "\<not> has_open_fence (js ''{}'') \<and> \<not> has_close_fence (js ''{}'')
   \<and> parseValeOutput (\<lambda>s. Inr []) (wrapFence (js ''{}''))
       = parseValeOutput (\<lambda>s. Inr []) (js ''{}'')
   \<and> stripCodeFence (wrapFence (js '' {} '')) = js ''{}''"
proof -
  have a: "\<not> has_open_fence (js ''{}'')" by (simp add: has_open_fence_def js_def)
  have b: "\<not> has_close_fence (js ''{}'')"
    by (simp add: has_close_fence_def js_def is_space_def)
  have c: "trim (js '' {} '') = js ''{}''" by (simp add: trim_def js_def is_space_def)
  show ?thesis
    using a b c fenced_output_parses_alike [of "js ''{}''" "\<lambda>s. Inr []"]
      fenced_output_parses_alike [of "js '' {} ''" "\<lambda>s. Inr []"]
    by simp
qed

text \<open>
  Claim C5 as stated fails for a text that is itself fenced. Take the text
  \<open>```json\<close>, \<open>{}\<close>, \<open>```\<close> (three lines) and a parser that, as \<open>JSON.parse\<close> does on the two
  texts it receives here, accepts \<open>{}\<close> and rejects a text that begins with a backtick.
  The text parses to the empty mapping; wrapped once more, one wrapper is stripped, the
  inner fence reaches the parser, and parsing fails.
\<close>

theorem fence_inside_fence_counterexample:
  "parseValeOutput (\<lambda>s. if s = js ''{}'' then Inr [] else Inl (js ''Unexpected token''))
      (js ''```json\<newline>{}\<newline>```'') = Inr []
   \<and> parseValeOutput (\<lambda>s. if s = js ''{}'' then Inr [] else Inl (js ''Unexpected token''))
      (wrapFence (js ''```json\<newline>{}\<newline>```''))
     = Inl (MalformedToolOutput (js ''Failed to parse Vale JSON output: Unexpected token''))"
  by (simp add: parseValeOutput_def stripCodeFence_def strip_open_def close_match_def
      closes_here_def trim_def wrapFence_def js_def is_space_def LF_def)

text \<open>
  Claim C6. A text of white space only (the empty text included) parses to the empty
  mapping, and so does such a text inside a code fence and the fence \<open>```json\<close>, \<open>```\<close> that
  wraps nothing; the empty mapping has no issues. When the stripped text is not empty and
  the structural parser rejects it with message \<open>m\<close>, parsing fails with
  \<open>MalformedToolOutput\<close> carrying that message.
\<close>

theorem empty_output_is_no_issue:
  "(list_all is_space t \<longrightarrow>
      parseValeOutput J t = Inr [] \<and> parseValeOutput J (wrapFence t) = Inr [])
   \<and> parseValeOutput J (js ''```json\<newline>```'') = Inr []
   \<and> normalizeIssues [] = []
   \<and> (stripCodeFence u \<noteq> [] \<and> J (stripCodeFence u) = Inl m \<longrightarrow>
        parseValeOutput J u
          = Inl (MalformedToolOutput (js ''Failed to parse Vale JSON output: '' @ m)))"
proof -
  have "stripCodeFence (js ''```json\<newline>```'') = []"
    by (simp add: stripCodeFence_def strip_open_def close_match_def
      closes_here_def trim_def js_def is_space_def LF_def)
  then show ?thesis
    by (simp add: parseValeOutput_def stripCodeFence_space stripCodeFence_wrap trim_all_space
        normalizeIssues_def)
qed

theorem empty_output_is_no_issue_witness:
  "list_all is_space (js '' \<newline>'')
   \<and> parseValeOutput (\<lambda>s. Inl (js ''Unexpected token'')) (js '' \<newline>'') = Inr []
   \<and> stripCodeFence (js ''oops'') \<noteq> []
   \<and> parseValeOutput (\<lambda>s. Inl (js ''Unexpected token'')) (js ''oops'')
       = Inl (MalformedToolOutput (js ''Failed to parse Vale JSON output: Unexpected token''))"
proof -
  have a: "list_all is_space (js '' \<newline>'')" by (simp add: js_def is_space_def)
  have b: "stripCodeFence (js ''oops'') = js ''oops''"
    by (simp add: stripCodeFence_def strip_open_def close_match_def closes_here_def trim_def
        js_def is_space_def LF_def)
  have c: "js ''oops'' \<noteq> []" by (simp add: js_def)
  show ?thesis
    using a b c
      empty_output_is_no_issue [of "js '' \<newline>''" "\<lambda>s. Inl (js ''Unexpected token'')"
        "js ''oops''" "js ''Unexpected token''"]
    by (simp add: js_def)
qed

section \<open>Properties of normalizeIssues\<close>

lemma push_file_issues_append:
  "push_file_issues acc xs = acc @ map normalize_issue xs"
  by (induction xs arbitrary: acc) simp_all

lemma normalize_files_append:
  "normalize_files acc raw = acc @ concat (map (\<lambda>(filePath, fileIssues). map normalize_issue fileIssues) raw)"
  by (induction acc raw rule: normalize_files.induct) (simp_all add: push_file_issues_append)

lemma normalizeIssues_concat:
  "normalizeIssues raw = concat (map (\<lambda>(filePath, fileIssues). map normalize_issue fileIssues) raw)"
  by (simp add: normalizeIssues_def normalize_files_append)

lemma length_normalizeIssues:
  "length (normalizeIssues raw) = sum_list (map (\<lambda>(filePath, fileIssues). length fileIssues) raw)"
  by (induction raw) (auto simp: normalizeIssues_concat)

lemma normalizeIssues_rename:
  "normalizeIssues (map (\<lambda>(filePath, fileIssues). (f filePath, fileIssues)) raw) = normalizeIssues raw"
  by (induction raw) (auto simp: normalizeIssues_concat)

lemma check_output_Inr:
  assumes "check_output P a out = Inr r"
  shows "\<exists>raw. parseValeOutput (JSON_parse P) out = Inr raw \<and> issues r = normalizeIssues raw
           \<and> summary r = generateSummary (normalizeIssues raw)"
  using assms by (auto simp: check_output_def Let_def split: sum.splits)

lemma checkFile_Inr:
  assumes "fst (checkFile P f c st) = Inr r"
  shows "\<exists>out. check_output P (absolute_path P f) out = Inr r"
  using assms
  by (auto simp: checkFile_def split: if_splits prod.splits exec_result.splits)

text \<open>
  Claim C10. For every raw output mapping, whatever the number of its file keys,
  normalization returns the concatenation of the files' issue lists in the order of the
  keys. The length of the result, and the total of its summary, is the sum of the numbers of
  issues of the files. The keys take no part in the result: renaming them changes nothing.
  When \<open>checkFile\<close> returns a result, its issues are the normalized issues of the parsed
  output and the total of its summary is that sum.
\<close>

theorem normalize_concatenates_files:
  "normalizeIssues raw = concat (map (\<lambda>(filePath, fileIssues). map normalize_issue fileIssues) raw)
   \<and> length (normalizeIssues raw) = sum_list (map (\<lambda>(filePath, fileIssues). length fileIssues) raw)
   \<and> total (generateSummary (normalizeIssues raw))
       = sum_list (map (\<lambda>(filePath, fileIssues). length fileIssues) raw)
   \<and> normalizeIssues (map (\<lambda>(filePath, fileIssues). (f filePath, fileIssues)) raw)
       = normalizeIssues raw
   \<and> (fst (checkFile P fp cfg st) = Inr r \<longrightarrow>
        (\<exists>out raw'. parseValeOutput (JSON_parse P) out = Inr raw'
           \<and> issues r = normalizeIssues raw'
           \<and> total (summary r) = sum_list (map (\<lambda>(filePath, fileIssues). length fileIssues) raw')))"
proof -
  have "fst (checkFile P fp cfg st) = Inr r \<longrightarrow>
        (\<exists>out raw'. parseValeOutput (JSON_parse P) out = Inr raw'
           \<and> issues r = normalizeIssues raw'
           \<and> total (summary r) = sum_list (map (\<lambda>(filePath, fileIssues). length fileIssues) raw'))"
  proof
    assume "fst (checkFile P fp cfg st) = Inr r"
    then obtain out where "check_output P (absolute_path P fp) out = Inr r"
      using checkFile_Inr by blast
    then obtain raw' where "parseValeOutput (JSON_parse P) out = Inr raw'"
      and "issues r = normalizeIssues raw'" and "summary r = generateSummary (normalizeIssues raw')"
      using check_output_Inr by blast
    then show "\<exists>out raw'. parseValeOutput (JSON_parse P) out = Inr raw'
           \<and> issues r = normalizeIssues raw'
           \<and> total (summary r) = sum_list (map (\<lambda>(filePath, fileIssues). length fileIssues) raw')"
      by (auto simp: generateSummary_total length_normalizeIssues)
  qed
  then show ?thesis
    using normalizeIssues_concat [of raw] length_normalizeIssues [of raw]
      normalizeIssues_rename [of f raw]
    by (simp add: generateSummary_total)
qed

text \<open>
  The sample run: the tool exits with a status that is not zero and prints the sample
  output, one file with one issue.
\<close>

theorem normalize_concatenates_files_witness:
  "fst (checkFile (sample_platform issues_reported) (js ''/work/a.md'') None initial_state)
     = Inr \<lparr>formatted = formatValeResults [sample_error] (generateSummary [sample_error])
                          (Some (js ''/work/a.md'')),
            file_path = js ''/work/a.md'', issues = [sample_error],
            summary = generateSummary [sample_error]\<rparr>
   \<and> normalizeIssues sample_raw = [sample_error]
   \<and> total (generateSummary (normalizeIssues sample_raw)) = 1"
proof -
  have nf: "\<not> has_open_fence sample_stdout"
    by (simp add: has_open_fence_def sample_stdout_def quoted_def js_def)
  have nc: "\<not> has_close_fence sample_stdout"
    by (simp add: has_close_fence_def sample_stdout_def quoted_def js_def is_space_def)
  have "trim sample_stdout = sample_stdout"
    by (rule trim_id) (simp_all add: sample_stdout_def quoted_def js_def is_space_def)
  then have strip: "stripCodeFence sample_stdout = sample_stdout"
    using stripCodeFence_unfenced [OF nf nc] by simp
  have ne: "sample_stdout \<noteq> []" "sample_stdout \<noteq> js ''{}''"
    by (simp_all add: sample_stdout_def quoted_def js_def)
  have norm: "normalizeIssues sample_raw = [sample_error]"
    by (simp add: normalizeIssues_def sample_raw_def normalize_issue_def sample_error_def)
  have run: "fst (checkFile (sample_platform issues_reported) (js ''/work/a.md'') None initial_state)
     = Inr \<lparr>formatted = formatValeResults [sample_error] (generateSummary [sample_error])
                          (Some (js ''/work/a.md'')),
            file_path = js ''/work/a.md'', issues = [sample_error],
            summary = generateSummary [sample_error]\<rparr>"
    using ne
    by (simp add: checkFile_def execAsync_def check_output_def parseValeOutput_def strip norm
        sample_platform_def issues_reported_def absolute_path_def Let_def)
  show ?thesis
    using run norm
      normalize_concatenates_files [of sample_raw id "sample_platform issues_reported" "js ''/work/a.md''" None
        initial_state
        "\<lparr>formatted = formatValeResults [sample_error] (generateSummary [sample_error])
                          (Some (js ''/work/a.md'')),
            file_path = js ''/work/a.md'', issues = [sample_error],
            summary = generateSummary [sample_error]\<rparr>"]
    by (simp add: sample_raw_def)
qed

section \<open>Properties of formatValeResults\<close>

lemma render_issue_append: "render_issue sev out i = out @ render_issue sev [] i"
  by (simp add: render_issue_def Let_def)

lemma foldl_render_issue:
  "foldl (render_issue sev) out xs = out @ concat (map (render_issue sev []) xs)"
proof (induction xs arbitrary: out)
  case Nil
  show ?case by simp
next
  case (Cons i xs)
  have "foldl (render_issue sev) out (i # xs) = foldl (render_issue sev) (render_issue sev out i) xs"
    by simp
  also have "\<dots> = render_issue sev out i @ concat (map (render_issue sev []) xs)"
    by (rule Cons.IH)
  also have "\<dots> = (out @ render_issue sev [] i) @ concat (map (render_issue sev []) xs)"
    using render_issue_append [of sev out i] by simp
  finally show ?case by simp
qed

lemma render_group_eq:
  "render_group out (sev, xs) = out @ concat (map (render_issue sev []) xs)"
  by (simp add: render_group_def foldl_render_issue)

lemma render_group_blocks:
  "render_group out (sev, filter (\<lambda>i. severity i = sev) iss)
     = out @ concat (map issue_block (filter (\<lambda>i. severity i = sev) iss))"
proof -
  have "map (render_issue sev []) (filter (\<lambda>i. severity i = sev) iss)
          = map issue_block (filter (\<lambda>i. severity i = sev) iss)"
    by (rule map_cong) (simp_all add: issue_block_def)
  then show ?thesis
    by (simp only: render_group_eq)
qed

lemma foldl_render_group:
  "foldl render_group out (grouped iss)
     = out @ concat (map issue_block
         (filter (\<lambda>i. severity i = js ''error'') iss
          @ filter (\<lambda>i. severity i = js ''warning'') iss
          @ filter (\<lambda>i. severity i = js ''suggestion'') iss))"
  by (simp add: grouped_def render_group_blocks)

lemma insort_key_past:
  "(\<And>y. y \<in> set ys \<Longrightarrow> f y < f x) \<Longrightarrow> insort_key f x (ys @ zs) = ys @ insort_key f x zs"
  by (induction ys) (auto simp: not_le [symmetric] simp del: not_le)

lemma severities_distinct:
  "js ''error'' \<noteq> js ''warning''" "js ''error'' \<noteq> js ''suggestion''"
  "js ''warning'' \<noteq> js ''suggestion''" "js ''warning'' \<noteq> js ''error''"
  "js ''suggestion'' \<noteq> js ''error''" "js ''suggestion'' \<noteq> js ''warning''"
  by (simp_all add: js_def)

lemma sort_by_severity:
  "sort_key severity_rank (filter recognized iss)
     = filter (\<lambda>i. severity i = js ''error'') iss
       @ filter (\<lambda>i. severity i = js ''warning'') iss
       @ filter (\<lambda>i. severity i = js ''suggestion'') iss"
    (is "?L iss = ?E iss @ ?W iss @ ?S iss")
proof (induction iss)
  case Nil
  show ?case by simp
next
  case (Cons x xs)
  consider (e) "severity x = js ''error''" | (w) "severity x = js ''warning''"
    | (s) "severity x = js ''suggestion''" | (n) "\<not> recognized x"
    by (auto simp: recognized_def)
  then show ?case
  proof cases
    case e
    then have "?L (x # xs) = insort_key severity_rank x (?E xs @ ?W xs @ ?S xs)"
      using Cons.IH by (simp add: recognized_def)
    also have "\<dots> = x # ?E xs @ ?W xs @ ?S xs"
      by (rule insort_is_Cons) (simp add: severity_rank_def e)
    finally show ?thesis using e severities_distinct by simp
  next
    case w
    then have "?L (x # xs) = insort_key severity_rank x (?E xs @ ?W xs @ ?S xs)"
      using Cons.IH by (simp add: recognized_def)
    also have "\<dots> = ?E xs @ insort_key severity_rank x (?W xs @ ?S xs)"
      by (rule insort_key_past) (simp add: severity_rank_def w severities_distinct)
    also have "insort_key severity_rank x (?W xs @ ?S xs) = x # ?W xs @ ?S xs"
      by (rule insort_is_Cons) (auto simp: severity_rank_def w severities_distinct)
    finally show ?thesis using w severities_distinct by simp
  next
    case s
    then have "?L (x # xs) = insort_key severity_rank x ((?E xs @ ?W xs) @ ?S xs)"
      using Cons.IH by (simp add: recognized_def)
    also have "\<dots> = (?E xs @ ?W xs) @ insort_key severity_rank x (?S xs)"
      by (rule insort_key_past) (auto simp: severity_rank_def s severities_distinct)
    also have "insort_key severity_rank x (?S xs) = x # ?S xs"
      by (rule insort_is_Cons) (auto simp: severity_rank_def s severities_distinct)
    finally show ?thesis using s severities_distinct by simp
  next
    case n
    then show ?thesis using Cons.IH by (auto simp: recognized_def)
  qed
qed

lemma summary_parts_filter:
  "summary_parts s
     = map (\<lambda>(n, label). show_nat n @ label @ plural n)
         (filter (\<lambda>(n, label). n > 0)
            [(errors s, js '' error''), (warnings s, js '' warning''),
             (suggestions s, js '' suggestion'')])"
  by (simp add: summary_parts_def)

text \<open>
  Claim C3. The report of a list of issues that is not empty is the heading, the
  optional context line, the summary line, and then one block per issue with a recognized
  severity, the issues sorted by the rank error, warning, suggestion with a stable sort:
  first the errors, then the warnings, then the suggestions, each group in the order of the
  list. The clause in parentheses joins one part per severity whose count is positive, in
  the same order, and is absent when all three counts are zero.
\<close>

theorem report_groups_by_severity:
  assumes "iss \<noteq> []"
  shows "formatValeResults iss s ctx
      = js ''## Vale Linting Results'' @ [LF, LF]
        @ (if truthy ctx then js ''**Context:** '' @ the ctx @ [LF, LF] else [])
        @ js ''**Summary:** '' @ show_nat (total s) @ js '' issue'' @ plural (total s) @ js '' found''
        @ (if summary_parts s = [] then [] else js '' ('' @ join_comma (summary_parts s) @ js '')'')
        @ [LF, LF] @ js ''### Issues'' @ [LF, LF]
        @ concat (map issue_block (sort_key severity_rank (filter recognized iss)))
    \<and> summary_parts s
      = map (\<lambda>(n, label). show_nat n @ label @ plural n)
          (filter (\<lambda>(n, label). n > 0)
             [(errors s, js '' error''), (warnings s, js '' warning''),
              (suggestions s, js '' suggestion'')])
    \<and> sort_key severity_rank (filter recognized iss)
      = filter (\<lambda>i. severity i = js ''error'') iss
        @ filter (\<lambda>i. severity i = js ''warning'') iss
        @ filter (\<lambda>i. severity i = js ''suggestion'') iss"
proof -
  have head: "report_head s ctx
      = js ''## Vale Linting Results'' @ [LF, LF]
        @ (if truthy ctx then js ''**Context:** '' @ the ctx @ [LF, LF] else [])
        @ js ''**Summary:** '' @ show_nat (total s) @ js '' issue'' @ plural (total s) @ js '' found''
        @ (if summary_parts s = [] then [] else js '' ('' @ join_comma (summary_parts s) @ js '')'')
        @ [LF, LF] @ js ''### Issues'' @ [LF, LF]"
    by (simp add: report_head_def Let_def js_def LF_def)
  have "formatValeResults iss s ctx = foldl render_group (report_head s ctx) (grouped iss)"
    using assms by (simp add: formatValeResults_def)
  also have "\<dots> = report_head s ctx
      @ concat (map issue_block (sort_key severity_rank (filter recognized iss)))"
    by (simp only: foldl_render_group sort_by_severity)
  finally have "formatValeResults iss s ctx = report_head s ctx
      @ concat (map issue_block (sort_key severity_rank (filter recognized iss)))" .
  then show ?thesis
    using summary_parts_filter [of s] sort_by_severity [of iss] by (simp only: head append_assoc simp_thms)
qed

text \<open>
  A warning followed by an error: the error is shown first. The report of the sample
  issue, in full.
\<close>

lemma show_nat_digit: "n < 10 \<Longrightarrow> show_nat n = [of_nat (48 + n)]"
  by (simp add: show_nat.simps)

theorem report_groups_by_severity_witness:
  "[sample_warning, sample_error] \<noteq> []
   \<and> sort_key severity_rank (filter recognized [sample_warning, sample_error])
       = [sample_error, sample_warning]
   \<and> summary_parts (generateSummary [sample_warning, sample_error])
       = [js ''1 error'', js ''1 warning'']
   \<and> formatValeResults [sample_error] (generateSummary [sample_error]) None
       = js ''## Vale Linting Results'' @ [LF, LF]
         @ js ''**Summary:** 1 issue found (1 error)'' @ [LF, LF]
         @ js ''### Issues'' @ [LF, LF]
         @ [0xD83D, 0xDD34] @ js '' **Line 3** (ERROR): Typo'' @ [LF]
         @ arrow @ js ''Rule: `Vale.Spelling`'' @ [LF, LF]"
proof -
  have "formatValeResults [sample_error] (generateSummary [sample_error]) None
       = js ''## Vale Linting Results'' @ [LF, LF]
         @ js ''**Summary:** 1 issue found (1 error)'' @ [LF, LF]
         @ js ''### Issues'' @ [LF, LF]
         @ [0xD83D, 0xDD34] @ js '' **Line 3** (ERROR): Typo'' @ [LF]
         @ arrow @ js ''Rule: `Vale.Spelling`'' @ [LF, LF]"
    by (simp add: formatValeResults_def report_head_def summary_parts_def grouped_def
        render_group_def render_issue_def generateSummary_def count_issue_def sample_error_def
        severityEmoji_def toUpperCase_def upper_unit_def show_int_def show_nat_digit plural_def
        js_def LF_def arrow_def Let_def)
  then show ?thesis
    using report_groups_by_severity [of "[sample_warning, sample_error]"
        "generateSummary [sample_warning, sample_error]" None]
    by (simp add: recognized_def severity_rank_def sample_error_def sample_warning_def
        generateSummary_def count_issue_def show_nat_digit plural_def js_def)
qed

section \<open>Properties of the installation cache\<close>

lemma probe_cached:
  "checked (valeInstallCache st) \<Longrightarrow> checkValeInstalled P st = (cached_status (valeInstallCache st), st)"
  by (simp add: checkValeInstalled_def)

lemma probe_fresh:
  "\<not> checked (valeInstallCache st) \<Longrightarrow>
   checkValeInstalled P st
     = (cached_status (probe_outcome (exec P (execs st) version_query)),
        st\<lparr>valeInstallCache := probe_outcome (exec P (execs st) version_query),
           execs := execs st @ [version_query]\<rparr>)"
  by (simp add: checkValeInstalled_def execAsync_def)

lemma probe_outcome_checked: "checked (probe_outcome r)"
  by (cases r) (simp_all add: probe_outcome_def)

lemma probe_marks_checked: "checked (valeInstallCache (snd (checkValeInstalled P st)))"
  by (cases "checked (valeInstallCache st)") (simp_all add: probe_cached probe_fresh probe_outcome_checked)

lemma probe_result: "fst (checkValeInstalled P st) = cached_status (valeInstallCache (snd (checkValeInstalled P st)))"
  by (cases "checked (valeInstallCache st)") (simp_all add: probe_cached probe_fresh)

lemma probe_again:
  "snd (checkValeInstalled P st) = s1 \<Longrightarrow> fst (checkValeInstalled P st) = r1 \<Longrightarrow>
   checkValeInstalled P (s1\<lparr>valeConfigPath := cfg, execs := cmds\<rparr>)
     = (r1, s1\<lparr>valeConfigPath := cfg, execs := cmds\<rparr>)"
  using probe_marks_checked [of P st] probe_result [of P st]
  by (auto simp: probe_cached)

lemma probe_idem:
  "checkValeInstalled P (snd (checkValeInstalled P st)) = checkValeInstalled P st"
  using probe_marks_checked [of P st] probe_result [of P st]
  by (simp add: probe_cached prod_eq_iff)

lemma probe_iterate:
  "((\<lambda>s. snd (checkValeInstalled P s)) ^^ n) (snd (checkValeInstalled P st)) = snd (checkValeInstalled P st)"
  by (induction n) (simp_all add: probe_idem)

text \<open>
  Claim C9. The state after a probe is marked as checked. A probe in that state, whatever
  the configuration path and whatever commands have run since, returns the status of the
  first probe and changes nothing: no command is run. This holds after any number of
  further probes. After \<open>clearValeInstallCache\<close> the cache is not checked, and the next
  probe runs the version query again and caches its outcome.
\<close>

theorem probe_is_cached_until_cleared:
  "checked (valeInstallCache (snd (checkValeInstalled P s0)))
   \<and> (\<forall>cfg cmds.
        checkValeInstalled P (snd (checkValeInstalled P s0)\<lparr>valeConfigPath := cfg, execs := cmds\<rparr>)
          = (fst (checkValeInstalled P s0),
             snd (checkValeInstalled P s0)\<lparr>valeConfigPath := cfg, execs := cmds\<rparr>))
   \<and> (\<forall>n. checkValeInstalled P
              (((\<lambda>s. snd (checkValeInstalled P s)) ^^ n) (snd (checkValeInstalled P s0)))
            = (fst (checkValeInstalled P s0), snd (checkValeInstalled P s0)))
   \<and> \<not> checked (valeInstallCache (clearValeInstallCache (snd (checkValeInstalled P s0))))
   \<and> checkValeInstalled P (clearValeInstallCache (snd (checkValeInstalled P s0)))
       = (cached_status
            (probe_outcome (exec P (execs (snd (checkValeInstalled P s0))) version_query)),
          snd (checkValeInstalled P s0)
            \<lparr>valeInstallCache :=
               probe_outcome (exec P (execs (snd (checkValeInstalled P s0))) version_query),
             execs := execs (snd (checkValeInstalled P s0)) @ [version_query]\<rparr>)"
proof -
  have clear: "\<not> checked (valeInstallCache (clearValeInstallCache s))" for s
    by (simp add: clearValeInstallCache_def unchecked_cache_def)
  have "checkValeInstalled P (clearValeInstallCache s)
       = (cached_status (probe_outcome (exec P (execs s) version_query)),
          s\<lparr>valeInstallCache := probe_outcome (exec P (execs s) version_query),
            execs := execs s @ [version_query]\<rparr>)" for s
    using probe_fresh [OF clear, of P s] by (simp add: clearValeInstallCache_def)
  then show ?thesis
    using probe_marks_checked [of P s0] probe_again [where P = P and st = s0, OF refl refl] clear
    by (simp add: probe_iterate probe_idem)
qed

text \<open>
  The sample host: one query for the first probe, none for the second, one more after
  the cache is cleared.
\<close>

theorem probe_is_cached_until_cleared_witness:
  "fst (checkValeInstalled (sample_platform version_reported) initial_state)
     = \<lparr>installed = True, version = Some (js ''vale version 3.0.0''), error = None\<rparr>
   \<and> execs (snd (checkValeInstalled (sample_platform version_reported) initial_state))
     = [version_query]
   \<and> checkValeInstalled (sample_platform version_reported)
        (snd (checkValeInstalled (sample_platform version_reported) initial_state))
     = checkValeInstalled (sample_platform version_reported) initial_state
   \<and> execs (snd (checkValeInstalled (sample_platform version_reported)
        (clearValeInstallCache
           (snd (checkValeInstalled (sample_platform version_reported) initial_state)))))
     = [version_query, version_query]"
proof -
  have b: "checkValeInstalled (sample_platform version_reported) initial_state
      = (\<lparr>installed = True, version = Some (js ''vale version 3.0.0''), error = None\<rparr>,
         initial_state\<lparr>valeInstallCache := probe_outcome version_reported,
                       execs := [version_query]\<rparr>)"
    by (simp add: checkValeInstalled_def execAsync_def initial_state_def unchecked_cache_def
        sample_platform_def version_reported_def probe_outcome_def cached_status_def
        trim_def js_def LF_def is_space_def)
  have c: "checkValeInstalled (sample_platform version_reported)
        (snd (checkValeInstalled (sample_platform version_reported) initial_state))
     = checkValeInstalled (sample_platform version_reported) initial_state"
    using probe_is_cached_until_cleared [of "sample_platform version_reported" initial_state]
    by (metis funpow_0 prod.collapse)
  show ?thesis
    using c probe_is_cached_until_cleared [of "sample_platform version_reported" initial_state]
    by (simp add: b)
qed

section \<open>Properties of checkFile\<close>

lemma parse_not_exec_failure: "parseValeOutput J out \<noteq> Inl (ToolExecutionFailed m)"
  by (simp add: parseValeOutput_def Let_def split: sum.splits)

lemma check_output_not_exec_failure: "check_output P a out \<noteq> Inl (ToolExecutionFailed m)"
  using parse_not_exec_failure [of "JSON_parse P" out m]
  by (auto simp: check_output_def Let_def split: sum.splits)

lemma checkFile_resolved:
  "readable P fp \<Longrightarrow> exec P (execs st) (check_command P fp cfg) = Resolved out err \<Longrightarrow>
   fst (checkFile P fp cfg st) = check_output P (absolute_path P fp) out"
  by (simp add: checkFile_def execAsync_def)

lemma checkFile_rejected_stdout:
  "readable P fp \<Longrightarrow> exec P (execs st) (check_command P fp cfg) = Rejected e \<Longrightarrow>
   truthy (err_stdout e) \<Longrightarrow>
   fst (checkFile P fp cfg st) = check_output P (absolute_path P fp) (the (err_stdout e))"
  by (simp add: checkFile_def execAsync_def)

lemma checkFile_rejected_silent:
  "readable P fp \<Longrightarrow> exec P (execs st) (check_command P fp cfg) = Rejected e \<Longrightarrow>
   \<not> truthy (err_stdout e) \<Longrightarrow>
   fst (checkFile P fp cfg st)
     = Inl (ToolExecutionFailed (js ''Vale execution failed: '' @ failure_text e))"
  by (simp add: checkFile_def execAsync_def)

text \<open>
  Claim C1, as amended. For a readable file, \<open>checkFile\<close> fails with
  \<open>ToolExecutionFailed\<close> exactly when the execution is rejected (exit status not zero, or
  the process could not run) and the rejection carries no stdout content; the message is
  then \<open>Vale execution failed:\<close> followed by the captured stderr, else the message of the
  rejection, else \<open>Unknown error\<close>. A rejected execution with stdout content proceeds with
  that stdout, and an execution that exits with status zero proceeds with its stdout,
  empty or not.
\<close>

theorem execution_fails_without_stdout:
  assumes "readable P fp"
  shows "((\<exists>m. fst (checkFile P fp cfg st) = Inl (ToolExecutionFailed m))
           = (\<exists>e. exec P (execs st) (check_command P fp cfg) = Rejected e
                  \<and> \<not> truthy (err_stdout e)))
    \<and> (exec P (execs st) (check_command P fp cfg) = Rejected e \<and> \<not> truthy (err_stdout e)
         \<longrightarrow> fst (checkFile P fp cfg st)
               = Inl (ToolExecutionFailed (js ''Vale execution failed: '' @ failure_text e)))
    \<and> (exec P (execs st) (check_command P fp cfg) = Rejected e \<and> err_stdout e = Some s
          \<and> s \<noteq> []
         \<longrightarrow> fst (checkFile P fp cfg st) = check_output P (absolute_path P fp) s)
    \<and> (exec P (execs st) (check_command P fp cfg) = Resolved out err
         \<longrightarrow> fst (checkFile P fp cfg st) = check_output P (absolute_path P fp) out)"
proof -
  have iff: "(\<exists>m. fst (checkFile P fp cfg st) = Inl (ToolExecutionFailed m))
           = (\<exists>e. exec P (execs st) (check_command P fp cfg) = Rejected e
                  \<and> \<not> truthy (err_stdout e))"
  proof (cases "exec P (execs st) (check_command P fp cfg)")
    case (Resolved out' err')
    then show ?thesis
      using checkFile_resolved [OF assms Resolved] check_output_not_exec_failure by simp
  next
    case (Rejected e')
    show ?thesis
    proof (cases "truthy (err_stdout e')")
      case True
      then show ?thesis
        using checkFile_rejected_stdout [OF assms Rejected True] Rejected
          check_output_not_exec_failure by simp
    next
      case False
      then show ?thesis
        using checkFile_rejected_silent [OF assms Rejected False] Rejected by simp
    qed
  qed
  show ?thesis
    using iff assms
    by (auto simp: checkFile_resolved checkFile_rejected_silent
        dest: checkFile_rejected_stdout [where P = P and fp = fp and st = st and cfg = cfg])
qed

text \<open>
  Three sample runs: a failure without output, a run that exits with a status that is not
  zero and prints issues, and a run that exits with status zero.
\<close>

theorem execution_fails_without_stdout_witness:
  "readable (sample_platform silent_failure) (js ''/work/a.md'')
   \<and> fst (checkFile (sample_platform silent_failure) (js ''/work/a.md'') None initial_state)
       = Inl (ToolExecutionFailed
               (js ''Vale execution failed: E100 [loadStyles] Runtime error''))
   \<and> fst (checkFile (sample_platform issues_reported) (js ''/work/a.md'') None initial_state)
       = check_output (sample_platform issues_reported) (js ''/work/a.md'') sample_stdout
   \<and> fst (checkFile (sample_platform (Resolved sample_stdout [])) (js ''/work/a.md'') None
            initial_state)
       = check_output (sample_platform (Resolved sample_stdout [])) (js ''/work/a.md'')
           sample_stdout"
proof -
  have r: "readable (sample_platform x) (js ''/work/a.md'')" for x
    by (simp add: sample_platform_def)
  have sample_nonempty: "sample_stdout \<noteq> []"
    by (simp add: sample_stdout_def js_def)
  show ?thesis
    using r [of silent_failure] sample_nonempty
      execution_fails_without_stdout [OF r [of silent_failure], of None initial_state
        "\<lparr>is_Error = True, err_message = Some (js ''Command failed: vale''),
          err_stdout = Some [], err_stderr = Some (js ''E100 [loadStyles] Runtime error'')\<rparr>"
        undefined undefined undefined]
      execution_fails_without_stdout [OF r [of issues_reported], of None initial_state
        "\<lparr>is_Error = True, err_message = Some (js ''Command failed: vale''),
          err_stdout = Some sample_stdout, err_stderr = Some []\<rparr>"
        sample_stdout undefined undefined]
      execution_fails_without_stdout [OF r [of "Resolved sample_stdout []"], of None initial_state undefined undefined
        sample_stdout "[]"]
    by (simp add: sample_platform_def silent_failure_def issues_reported_def failure_text_def
        absolute_path_def js_def)
qed

text \<open>
  Claim C1 as stated fails: when the tool exits with status zero and prints nothing, no
  stdout content was produced, yet the check does not fail; it reports no issues.
\<close>

theorem silent_success_counterexample:
  "exec (sample_platform (Resolved [] [])) (execs initial_state)
       (check_command (sample_platform (Resolved [] [])) (js ''/work/a.md'') None)
     = Resolved [] []
   \<and> fst (checkFile (sample_platform (Resolved [] [])) (js ''/work/a.md'') None initial_state)
     = Inr \<lparr>formatted = no_issues_message, file_path = js ''/work/a.md'', issues = [],
            summary = \<lparr>total = 0, errors = 0, warnings = 0, suggestions = 0\<rparr>\<rparr>"
  by (simp add: checkFile_def sample_platform_def execAsync_def check_output_def
      parseValeOutput_def stripCodeFence_def strip_open_def trim_def absolute_path_def
      normalizeIssues_def generateSummary_def formatValeResults_def js_def)

section \<open>Properties of the dispatcher\<close>

lemma tool_names_distinct:
  "js ''check_file'' \<noteq> js ''vale_status''" "js ''check_file'' \<noteq> js ''vale_sync''"
  "js ''vale_sync'' \<noteq> js ''vale_status''"
  by (simp_all add: js_def)

text \<open>
  Claim C7. When the arguments of \<open>check_file\<close> hold no path, or the empty path, the
  handler returns the response \<open>{"error": "Missing required parameter: path"}\<close> and leaves
  the state as it was: no external command is run, not even the version query. A request
  without any arguments leaves the state unchanged as well.
\<close>

theorem check_file_requires_path:
  "(\<not> truthy (path a) \<longrightarrow>
      call_tool P (js ''check_file'') (Some a) st = (missing_path_response, st))
   \<and> content missing_path_response
       = JsonText (JObj [(js ''error'', JStr (js ''Missing required parameter: path''))])
   \<and> snd (call_tool P (js ''check_file'') None st) = st"
  by (simp add: call_tool_def call_tool_try_def tool_names_distinct missing_path_response_def
      obj_def List.map_filter_simps)

text \<open>
  An empty path and a missing path.
\<close>

theorem check_file_requires_path_witness:
  "\<not> truthy (path \<lparr>path = Some [], config_path = None\<rparr>)
   \<and> call_tool (sample_platform version_reported) (js ''check_file'')
        (Some \<lparr>path = Some [], config_path = None\<rparr>) initial_state
       = (missing_path_response, initial_state)
   \<and> execs (snd (call_tool (sample_platform version_reported) (js ''check_file'')
        (Some \<lparr>path = None, config_path = None\<rparr>) initial_state)) = []"
  using check_file_requires_path [of "\<lparr>path = Some [], config_path = None\<rparr>" "sample_platform version_reported"
      initial_state]
    check_file_requires_path [of "\<lparr>path = None, config_path = None\<rparr>" "sample_platform version_reported"
      initial_state]
  by (simp add: initial_state_def)

lemma probe_keeps_cache_ok:
  "cache_ok (valeInstallCache st) \<Longrightarrow> cache_ok (valeInstallCache (snd (checkValeInstalled P st)))"
  by (cases "checked (valeInstallCache st)"; cases "exec P (execs st) version_query")
     (simp_all add: probe_cached probe_fresh probe_outcome_def cache_ok_def)

lemma probe_version:
  assumes "cache_ok (valeInstallCache st)"
  shows "installed (fst (checkValeInstalled P st)) = (version (fst (checkValeInstalled P st)) \<noteq> None)"
  using probe_keeps_cache_ok [OF assms, of P] probe_marks_checked [of P st]
  by (simp add: probe_result cache_ok_def cached_status_def)

lemma status_keys_distinct:
  "js ''installation_instructions'' \<noteq> js ''installed''"
  "js ''installation_instructions'' \<noteq> js ''version''"
  "js ''installation_instructions'' \<noteq> js ''platform''"
  "js ''version'' \<noteq> js ''installed''"
  "js ''version'' \<noteq> js ''platform''"
  "js ''version'' \<noteq> js ''installation_instructions''"
  "js ''version'' \<noteq> js ''message''"
  by (simp_all add: js_def)

lemma call_status:
  "call_tool P (js ''vale_status'') args st
     = (status_response P (fst (checkValeInstalled P st)), snd (checkValeInstalled P st))"
  by (simp add: call_tool_def call_tool_try_def split: prod.splits)

lemma cache_ok_initial: "cache_ok (valeInstallCache initial_state)"
  by (simp add: cache_ok_def initial_state_def unchecked_cache_def)

lemma sync_keeps_cache:
  "valeInstallCache (snd (syncValeStyles P c st)) = valeInstallCache st"
  by (simp add: syncValeStyles_def execAsync_def Let_def split: exec_result.splits)

lemma checkFile_keeps_cache:
  "valeInstallCache (snd (checkFile P fp c st)) = valeInstallCache st"
  by (simp add: checkFile_def execAsync_def split: exec_result.splits)

lemma clear_keeps_cache_ok: "cache_ok (valeInstallCache (clearValeInstallCache st))"
  by (simp add: clearValeInstallCache_def cache_ok_def unchecked_cache_def)

lemma call_tool_try_keeps_cache_ok:
  assumes "cache_ok (valeInstallCache st)"
  shows "cache_ok (valeInstallCache (snd (call_tool_try P name args st)))"
proof -
  obtain v s1 where p: "checkValeInstalled P st = (v, s1)"
    by (cases "checkValeInstalled P st")
  have ok1: "cache_ok (valeInstallCache s1)"
    using probe_keeps_cache_ok [OF assms, of P] p by simp
  have sync: "cache_ok (valeInstallCache (snd (syncValeStyles P c s1)))" for c
    by (simp add: sync_keeps_cache ok1)
  have chk: "cache_ok (valeInstallCache (snd (checkFile P fp c s1)))" for fp c
    by (simp add: checkFile_keeps_cache ok1)
  show ?thesis
  proof (cases args)
    case None
    then show ?thesis using assms ok1 p by (simp add: call_tool_try_def)
  next
    case (Some a)
    obtain r s2 where q: "syncValeStyles P (effectiveConfigPath a s1) s1 = (r, s2)"
      by (cases "syncValeStyles P (effectiveConfigPath a s1) s1")
    obtain r' s3 where q': "checkFile P (the (path a)) (valeConfigPath s1) s1 = (r', s3)"
      by (cases "checkFile P (the (path a)) (valeConfigPath s1) s1")
    have "cache_ok (valeInstallCache s2)" using sync [of "effectiveConfigPath a s1"] q by simp
    moreover have "cache_ok (valeInstallCache s3)"
      using chk [of "the (path a)" "valeConfigPath s1"] q' by simp
    ultimately show ?thesis
      using assms ok1 p q q' Some by (cases r') (simp_all add: call_tool_try_def)
  qed
qed

lemma call_tool_keeps_cache_ok:
  assumes "cache_ok (valeInstallCache st)"
  shows "cache_ok (valeInstallCache (snd (call_tool P name args st)))"
  using call_tool_try_keeps_cache_ok [OF assms, of P name args]
  by (auto simp: call_tool_def split: prod.splits sum.splits)

lemma initializeValeConfig_keeps_cache_ok:
  assumes "cache_ok (valeInstallCache st)"
  shows "cache_ok (valeInstallCache (snd (initializeValeConfig P st)))"
  using probe_keeps_cache_ok [OF assms, of P]
  by (auto simp: initializeValeConfig_def working_dir_config_def Let_def split: prod.splits)

text \<open>
  Claim C8. In the response of \<open>vale_status\<close> the property
  \<open>installation_instructions\<close> is \<open>null\<close> when the probe reports the tool installed and the
  instructions for the host platform (never \<open>null\<close>) when it does not; the property
  \<open>version\<close> is present, with the version of the probe, exactly when the probe reports the
  tool installed.
\<close>

theorem status_guidance_and_version:
  assumes "cache_ok (valeInstallCache st)"
  shows "map_of (response_fields (fst (call_tool P (js ''vale_status'') args st)))
        (js ''installation_instructions'')
      = Some (if installed (fst (checkValeInstalled P st)) then JNull
              else instructions_json (getInstallationInstructions P))
    \<and> instructions_json (getInstallationInstructions P) \<noteq> JNull
    \<and> map_of (response_fields (fst (call_tool P (js ''vale_status'') args st))) (js ''version'')
      = (if installed (fst (checkValeInstalled P st))
         then Some (JStr (the (version (fst (checkValeInstalled P st))))) else None)
    \<and> installed (fst (checkValeInstalled P st))
      = (version (fst (checkValeInstalled P st)) \<noteq> None)
    \<and> map_of (response_fields (fst (call_tool P (js ''vale_status'') args st))) (js ''installed'')
      = Some (JBool (installed (fst (checkValeInstalled P st))))"
proof (cases "version (fst (checkValeInstalled P st))")
  case None
  then show ?thesis
    using probe_version [OF assms, of P]
    by (simp add: call_status response_fields_def status_response_def obj_def
        List.map_filter_simps status_keys_distinct instructions_json_def)
next
  case (Some v)
  then show ?thesis
    using probe_version [OF assms, of P]
    by (simp add: call_status response_fields_def status_response_def obj_def
        List.map_filter_simps status_keys_distinct instructions_json_def)
qed

text \<open>
  The sample host without the tool, and with it.
\<close>

theorem status_guidance_and_version_witness:
  "cache_ok (valeInstallCache initial_state)
   \<and> map_of (response_fields (fst (call_tool (sample_platform silent_failure)
        (js ''vale_status'') None initial_state))) (js ''version'') = None
   \<and> map_of (response_fields (fst (call_tool (sample_platform silent_failure)
        (js ''vale_status'') None initial_state))) (js ''installation_instructions'')
       = Some (instructions_json (getInstallationInstructions (sample_platform silent_failure)))
   \<and> map_of (response_fields (fst (call_tool (sample_platform version_reported)
        (js ''vale_status'') None initial_state))) (js ''version'')
       = Some (JStr (js ''vale version 3.0.0''))
   \<and> map_of (response_fields (fst (call_tool (sample_platform version_reported)
        (js ''vale_status'') None initial_state))) (js ''installation_instructions'')
       = Some JNull"
proof -
  have a: "fst (checkValeInstalled (sample_platform silent_failure) initial_state)
      = \<lparr>installed = False, version = None, error = Some (js ''Command failed: vale'')\<rparr>"
    by (simp add: checkValeInstalled_def execAsync_def initial_state_def unchecked_cache_def
        sample_platform_def silent_failure_def probe_outcome_def cached_status_def)
  have b: "fst (checkValeInstalled (sample_platform version_reported) initial_state)
      = \<lparr>installed = True, version = Some (js ''vale version 3.0.0''), error = None\<rparr>"
    by (simp add: checkValeInstalled_def execAsync_def initial_state_def unchecked_cache_def
        sample_platform_def version_reported_def probe_outcome_def cached_status_def
        trim_def js_def LF_def is_space_def)
  show ?thesis
    using cache_ok_initial
      status_guidance_and_version [OF cache_ok_initial, of "sample_platform silent_failure" None]
      status_guidance_and_version [OF cache_ok_initial, of "sample_platform version_reported" None]
    by (simp add: a b)
qed

section \<open>Properties of the configuration resolution\<close>

lemma startup_probe:
  assumes "exec P [] version_query = Resolved out err"
  shows "checkValeInstalled P initial_state
     = (\<lparr>installed = True, version = Some (trim out), error = None\<rparr>,
        initial_state\<lparr>valeInstallCache := probe_outcome (Resolved out err),
                      execs := [version_query]\<rparr>)"
  using assms
  by (simp add: probe_fresh initial_state_def unchecked_cache_def probe_outcome_def
      cached_status_def)

lemma initial_config_path: "valeConfigPath initial_state = None"
  by (simp add: initial_state_def)

lemma working_dir_config_path:
  "valeConfigPath (snd (working_dir_config P lg st))
     = (if readable P (join P [cwd P, js ''.vale.ini'']) \<and> join P [cwd P, js ''.vale.ini''] \<noteq> []
        then Some (join P [cwd P, js ''.vale.ini'']) else valeConfigPath st)"
  by (simp add: working_dir_config_def findValeIniInWorkingDir_def Let_def)

lemma working_dir_config_log:
  "x \<in> set lg \<Longrightarrow> x \<in> set (fst (working_dir_config P lg st))"
  by (simp add: working_dir_config_def Let_def)

lemma call_sync:
  assumes "installed (fst (checkValeInstalled P st))"
  shows "call_tool P (js ''vale_sync'') (Some a) st
     = (sync_response (fst (syncValeStyles P
           (effectiveConfigPath a (snd (checkValeInstalled P st))) (snd (checkValeInstalled P st)))),
        snd (syncValeStyles P
           (effectiveConfigPath a (snd (checkValeInstalled P st))) (snd (checkValeInstalled P st))))"
  using assms
  by (auto simp: call_tool_def call_tool_try_def tool_names_distinct split: prod.splits)

lemma startup_not_installed:
  assumes "exec P [] version_query = Rejected e"
  shows "initializeValeConfig P initial_state
     = (not_installed_lines P,
        initial_state\<lparr>valeInstallCache := probe_outcome (Rejected e),
                      execs := [version_query]\<rparr>)"
  using assms
  by (simp add: initializeValeConfig_def probe_fresh initial_state_def unchecked_cache_def
      probe_outcome_def cached_status_def)

lemma startup_config_path:
  assumes "exec P [] version_query = Resolved out err"
  shows "valeConfigPath (snd (initializeValeConfig P initial_state))
      = (if truthy (VALE_CONFIG_PATH P)
            \<and> readable P (resolveConfigPath P (the (VALE_CONFIG_PATH P)))
         then Some (resolveConfigPath P (the (VALE_CONFIG_PATH P)))
         else if readable P (join P [cwd P, js ''.vale.ini''])
                 \<and> join P [cwd P, js ''.vale.ini''] \<noteq> []
         then Some (join P [cwd P, js ''.vale.ini''])
         else None)"
  by (simp add: initializeValeConfig_def startup_probe [OF assms] Let_def loadConfig_def
      verifyConfigFile_def working_dir_config_path initial_config_path)

lemma startup_warning:
  assumes "exec P [] version_query = Resolved out err"
    and "truthy (VALE_CONFIG_PATH P)"
    and "\<not> readable P (resolveConfigPath P (the (VALE_CONFIG_PATH P)))"
  shows "env_warning (the (VALE_CONFIG_PATH P)) \<in> set (fst (initializeValeConfig P initial_state))"
  using assms(2,3)
  by (simp add: initializeValeConfig_def startup_probe [OF assms(1)] Let_def loadConfig_def
      verifyConfigFile_def working_dir_config_log)

text \<open>
  Claim C4, as amended. When the version query at startup succeeds, the configuration
  path of the server is the path of the environment variable, resolved, if the variable is
  set and that path is readable; otherwise \<open>.vale.ini\<close> in the working directory if it is
  readable; otherwise none; and when the variable is set but its path is not readable, the
  warning about it is written. When the version query at startup fails, no configuration
  path is resolved. For \<open>vale_sync\<close> the path of the call, when given, wins over the path of
  the server, and the sync runs with the path so chosen.
\<close>

theorem config_resolution_priority:
  "(exec P [] version_query = Resolved out err \<longrightarrow>
      valeConfigPath (snd (initializeValeConfig P initial_state))
        = (if truthy (VALE_CONFIG_PATH P)
              \<and> readable P (resolveConfigPath P (the (VALE_CONFIG_PATH P)))
           then Some (resolveConfigPath P (the (VALE_CONFIG_PATH P)))
           else if readable P (join P [cwd P, js ''.vale.ini''])
                   \<and> join P [cwd P, js ''.vale.ini''] \<noteq> []
           then Some (join P [cwd P, js ''.vale.ini''])
           else None)
      \<and> (truthy (VALE_CONFIG_PATH P)
            \<and> \<not> readable P (resolveConfigPath P (the (VALE_CONFIG_PATH P)))
          \<longrightarrow> env_warning (the (VALE_CONFIG_PATH P))
                \<in> set (fst (initializeValeConfig P initial_state))))
   \<and> (exec P [] version_query = Rejected e \<longrightarrow>
        valeConfigPath (snd (initializeValeConfig P initial_state)) = None)
   \<and> effectiveConfigPath a st
       = (if truthy (config_path a) then config_path a else valeConfigPath st)
   \<and> (installed (fst (checkValeInstalled P st)) \<longrightarrow>
        call_tool P (js ''vale_sync'') (Some a) st
          = (sync_response (fst (syncValeStyles P
               (effectiveConfigPath a (snd (checkValeInstalled P st)))
               (snd (checkValeInstalled P st)))),
             snd (syncValeStyles P
               (effectiveConfigPath a (snd (checkValeInstalled P st)))
               (snd (checkValeInstalled P st)))))"
  using startup_config_path [of P out err] startup_warning [of P out err]
    startup_not_installed [of P e] call_sync [of P st a]
  by (simp add: effectiveConfigPath_def initial_config_path)

text \<open>
  The sample host with the tool, a variable that names a missing file, and a readable
  \<open>.vale.ini\<close> in the working directory; a call of \<open>vale_sync\<close> with a path of its own.
\<close>

theorem config_resolution_priority_witness:
  "exec ((sample_platform version_reported)
          \<lparr>readable := (\<lambda>p. p = js ''/work/.vale.ini''),
           VALE_CONFIG_PATH := Some (js ''/etc/missing.ini'')\<rparr>) [] version_query
     = version_reported
   \<and> valeConfigPath (snd (initializeValeConfig
        ((sample_platform version_reported)
          \<lparr>readable := (\<lambda>p. p = js ''/work/.vale.ini''),
           VALE_CONFIG_PATH := Some (js ''/etc/missing.ini'')\<rparr>) initial_state))
       = Some (js ''/work/.vale.ini'')
   \<and> env_warning (js ''/etc/missing.ini'')
       \<in> set (fst (initializeValeConfig
            ((sample_platform version_reported)
              \<lparr>readable := (\<lambda>p. p = js ''/work/.vale.ini''),
               VALE_CONFIG_PATH := Some (js ''/etc/missing.ini'')\<rparr>) initial_state))
   \<and> truthy (config_path \<lparr>path = None, config_path = Some (js ''/docs/.vale.ini'')\<rparr>)
   \<and> effectiveConfigPath \<lparr>path = None, config_path = Some (js ''/docs/.vale.ini'')\<rparr>
         (initial_state\<lparr>valeConfigPath := Some (js ''/work/.vale.ini'')\<rparr>)
       = Some (js ''/docs/.vale.ini'')"
  using config_resolution_priority
    [of "(sample_platform version_reported)
          \<lparr>readable := (\<lambda>p. p = js ''/work/.vale.ini''),
           VALE_CONFIG_PATH := Some (js ''/etc/missing.ini'')\<rparr>"
        "js ''vale version 3.0.0'' @ [LF]" "[]" undefined
        "\<lparr>path = None, config_path = Some (js ''/docs/.vale.ini'')\<rparr>"
        "initial_state\<lparr>valeConfigPath := Some (js ''/work/.vale.ini'')\<rparr>"]
  by (simp add: sample_platform_def version_reported_def resolveConfigPath_def js_def)

text \<open>
  Claim C4 as stated fails when the tool is not installed at startup: with the same
  variable and the same readable \<open>.vale.ini\<close>, no warning about the variable is written
  and the resolution does not fall through to \<open>.vale.ini\<close>; no path is resolved.
\<close>

theorem config_unresolved_without_tool_counterexample:
  "findValeIniInWorkingDir
     ((sample_platform silent_failure)
        \<lparr>readable := (\<lambda>p. p = js ''/work/.vale.ini''),
         VALE_CONFIG_PATH := Some (js ''/etc/missing.ini'')\<rparr>) = Some (js ''/work/.vale.ini'')
   \<and> valeConfigPath (snd (initializeValeConfig
        ((sample_platform silent_failure)
          \<lparr>readable := (\<lambda>p. p = js ''/work/.vale.ini''),
           VALE_CONFIG_PATH := Some (js ''/etc/missing.ini'')\<rparr>) initial_state)) = None
   \<and> env_warning (js ''/etc/missing.ini'')
       \<notin> set (fst (initializeValeConfig
            ((sample_platform silent_failure)
              \<lparr>readable := (\<lambda>p. p = js ''/work/.vale.ini''),
               VALE_CONFIG_PATH := Some (js ''/etc/missing.ini'')\<rparr>) initial_state))"
  by (simp add: sample_platform_def initializeValeConfig_def checkValeInstalled_def
      initial_state_def unchecked_cache_def execAsync_def probe_outcome_def cached_status_def
      silent_failure_def not_installed_lines_def getInstallationInstructions_def
      method_lines_def releases_url_def env_warning_def findValeIniInWorkingDir_def Let_def js_def)

end
